theory Spec2Isabelle
  imports Main
begin

section \<open>Python values used by the two modules\<close>

text \<open>
  A Python \<^verbatim>\<open>str\<close> is modelled as a \<^typ>\<open>string\<close> whose characters are the code points
  0 to 255. The string methods below follow CPython on that range.
\<close>

datatype error = ValueError string | KeyError string | TypeError | ExpatError

definition isspace :: "char \<Rightarrow> bool" where
  \<comment> \<open>\<^verbatim>\<open>str.isspace\<close> on one character: TAB, LF, VT, FF, CR, FS, GS, RS, US, SPACE, NEL, NBSP.\<close>
  "isspace c = ((of_char c :: nat) \<in> {9, 10, 11, 12, 13, 28, 29, 30, 31, 32, 133, 160})"

definition rstrip :: "string \<Rightarrow> string" where
  "rstrip s = rev (dropWhile isspace (rev s))"

definition strip :: "string \<Rightarrow> string" where
  "strip s = dropWhile isspace (rstrip s)"

definition lower_char :: "char \<Rightarrow> char" where
  \<comment> \<open>A to Z, and the Latin-1 capitals 192 to 222 except the multiplication sign 215.\<close>
  "lower_char c =
     (let n = (of_char c :: nat)
      in if (65 \<le> n \<and> n \<le> 90) \<or> (192 \<le> n \<and> n \<le> 222 \<and> n \<noteq> 215)
         then char_of (n + 32) else c)"

definition lower :: "string \<Rightarrow> string" where
  "lower s = map lower_char s"

definition startswith :: "string \<Rightarrow> string \<Rightarrow> bool" where
  "startswith s p = (take (length p) s = p)"

fun join :: "string \<Rightarrow> string list \<Rightarrow> string" where
  "join sep [] = []"
| "join sep [x] = x"
| "join sep (x # y # r) = x @ sep @ join sep (y # r)"

function replace :: "string \<Rightarrow> string \<Rightarrow> string \<Rightarrow> string" where
  \<comment> \<open>\<^verbatim>\<open>s.replace(old, new)\<close> for a non-empty \<^verbatim>\<open>old\<close>: leftmost matches, not overlapping.\<close>
  "replace old new s =
     (if s = [] \<or> old = [] then s
      else if startswith s old then new @ replace old new (drop (length old) s)
      else hd s # replace old new (tl s))"
  by pat_completeness auto
termination
  by (relation "measure (\<lambda>(old, new, s). length s)") auto

function split :: "char \<Rightarrow> string \<Rightarrow> string list" where
  \<comment> \<open>\<^verbatim>\<open>s.split(sep)\<close> for a one-character separator; \<^verbatim>\<open>''.split(sep) == ['']\<close>.\<close>
  "split sep s =
     takeWhile (\<lambda>c. c \<noteq> sep) s #
       (case dropWhile (\<lambda>c. c \<noteq> sep) s of [] \<Rightarrow> [] | _ # r \<Rightarrow> split sep r)"
  by pat_completeness auto
termination
proof (relation "measure (\<lambda>(sep, s). length s)")
  show "wf (measure (\<lambda>(sep :: char, s :: string). length s))"
    by simp
next
  fix sep :: char and s :: string and x21 x22
  assume "dropWhile (\<lambda>c. c \<noteq> sep) s = x21 # x22"
  then have "length (dropWhile (\<lambda>c. c \<noteq> sep) s) = Suc (length x22)"
    by simp
  moreover have "length (dropWhile (\<lambda>c. c \<noteq> sep) s) \<le> length s"
    by (rule length_dropWhile_le)
  ultimately show "((sep, x22), sep, s) \<in> measure (\<lambda>(sep, s). length s)"
    by simp
qed


declare replace.simps [simp del] split.simps [simp del]

definition dict_get :: "('k \<times> 'v) list \<Rightarrow> 'k \<Rightarrow> 'v \<Rightarrow> 'v" where
  \<comment> \<open>\<^verbatim>\<open>d.get(k, default)\<close> on a dictionary held as an association list.\<close>
  "dict_get d k dflt = (case map_of d k of None \<Rightarrow> dflt | Some v \<Rightarrow> v)"

definition dict_getitem :: "(string \<times> 'v) list \<Rightarrow> string \<Rightarrow> error + 'v" where
  \<comment> \<open>\<^verbatim>\<open>d[k]\<close>, which raises \<^verbatim>\<open>KeyError\<close> on a missing key.\<close>
  "dict_getitem d k = (case map_of d k of None \<Rightarrow> Inl (KeyError k) | Some v \<Rightarrow> Inr v)"

function str_nat :: "nat \<Rightarrow> string" where
  \<comment> \<open>\<^verbatim>\<open>str(n)\<close> for an integer \<^verbatim>\<open>n >= 0\<close>: its decimal digits.\<close>
  "str_nat n =
     (if n < 10 then [char_of (48 + n)] else str_nat (n div 10) @ [char_of (48 + n mod 10)])"
  by pat_completeness auto
termination
  by (relation "measure id") auto

declare str_nat.simps [simp del]

definition str_int :: "int \<Rightarrow> string" where
  "str_int i = (if i < 0 then CHR ''-'' # str_nat (nat (- i)) else str_nat (nat i))"

definition zfill :: "string \<Rightarrow> nat \<Rightarrow> string" where
  \<comment> \<open>\<^verbatim>\<open>s.zfill(width)\<close>: zeros go after a leading sign.\<close>
  "zfill s width =
     (if width \<le> length s then s
      else (case s of
              c # r \<Rightarrow>
                if c = CHR ''+'' \<or> c = CHR ''-''
                then c # replicate (width - length s) CHR ''0'' @ r
                else replicate (width - length s) CHR ''0'' @ s
            | [] \<Rightarrow> replicate width CHR ''0''))"

section \<open>Element trees\<close>

text \<open>
  \<^verbatim>\<open>xml.etree.ElementTree.Element\<close>: a tag, the attribute dictionary in insertion order, the
  optional text and tail, and the children. \<^verbatim>\<open>SubElement(parent, ...)\<close> creates an element and
  appends it to the parent's children; the model appends a finished child.
\<close>

datatype element =
  Element (tag: string) (attrib: "(string \<times> string) list") (elem_text: "string option")
    (elem_tail: "string option") (children: "element list")

definition SubElement :: "element \<Rightarrow> element \<Rightarrow> element" where
  "SubElement parent child =
     Element (tag parent) (attrib parent) (elem_text parent) (elem_tail parent)
       (children parent @ [child])"

definition SubElement_at :: "element \<Rightarrow> nat \<Rightarrow> element \<Rightarrow> element" where
  \<comment> \<open>\<^verbatim>\<open>SubElement(c, ...)\<close> where \<^verbatim>\<open>c\<close> is the child of \<^verbatim>\<open>parent\<close> at position \<^verbatim>\<open>i\<close>.\<close>
  "SubElement_at parent i child =
     Element (tag parent) (attrib parent) (elem_text parent) (elem_tail parent)
       ((children parent)[i := SubElement (children parent ! i) child])"

section \<open>excel\_to\_reqif.py: build\_xhtml\_from\_text\<close>

definition ns :: string where
  "ns = ''{http://www.w3.org/1999/xhtml}''"

text \<open>
  The local variables of the loop. \<^verbatim>\<open>ul_elem\<close> refers to an element that is a child of
  \<^verbatim>\<open>div\<close>, and appending a list item through it changes \<^verbatim>\<open>div\<close>: the model keeps the position
  of that child among the children of \<^verbatim>\<open>div\<close> (children are only ever appended, so the
  position stays valid). \<^verbatim>\<open>SubElement(None, ...)\<close> raises \<^verbatim>\<open>TypeError\<close>.
\<close>

record build_state =
  div_elem :: element
  buffer :: "string list"
  list_mode :: bool
  ul_elem :: "nat option"

definition flush_paragraph :: "element \<Rightarrow> string list \<Rightarrow> element" where
  "flush_paragraph d buf =
     (let content = strip (join ''\<newline>'' buf)
      in if content \<noteq> [] then SubElement d (Element (ns @ ''p'') [] (Some content) None [])
         else d)"

definition loop_body :: "build_state \<Rightarrow> string \<Rightarrow> error + build_state" where
  "loop_body st raw =
     (let line = rstrip raw in
      if line = [] then
        (if list_mode st then Inr (st\<lparr>list_mode := False, ul_elem := None\<rparr>)
         else if buffer st \<noteq> [] then
           Inr (st\<lparr>div_elem := flush_paragraph (div_elem st) (buffer st), buffer := []\<rparr>)
         else Inr st)
      else if startswith line ''- '' then
        (let st1 =
           (if \<not> list_mode st then
              (let st0 =
                 (if buffer st \<noteq> [] then
                    st\<lparr>div_elem := flush_paragraph (div_elem st) (buffer st), buffer := []\<rparr>
                  else st)
               in st0\<lparr>div_elem := SubElement (div_elem st0) (Element (ns @ ''ul'') [] None None []),
                      ul_elem := Some (length (children (div_elem st0))),
                      list_mode := True\<rparr>)
            else st)
         in case ul_elem st1 of
              None \<Rightarrow> Inl TypeError
            | Some i \<Rightarrow>
                Inr (st1\<lparr>div_elem :=
                       SubElement_at (div_elem st1) i
                         (Element (ns @ ''li'') [] (Some (strip (drop 2 line))) None [])\<rparr>))
      else
        Inr ((if list_mode st then st\<lparr>list_mode := False, ul_elem := None\<rparr> else st)
               \<lparr>buffer := buffer st @ [line]\<rparr>))"

fun for_lines :: "build_state \<Rightarrow> string list \<Rightarrow> error + build_state" where
  "for_lines st [] = Inr st"
| "for_lines st (raw # raws) =
     (case loop_body st raw of Inl e \<Rightarrow> Inl e | Inr st' \<Rightarrow> for_lines st' raws)"

definition splitlines :: "string \<Rightarrow> string list" where
  \<comment> \<open>The local \<^verbatim>\<open>lines\<close>: line endings normalised, then split at LF.\<close>
  "splitlines text =
     split CHR ''\<newline>''
       (replace [CHR 0x0D] ''\<newline>'' (replace [CHR 0x0D, CHR ''\<newline>''] ''\<newline>'' text))"

definition build_xhtml_from_text :: "string \<Rightarrow> error + element" where
  "build_xhtml_from_text text =
     (let d = Element (ns @ ''div'') [] None None [] in
      if text = [] then Inr (SubElement d (Element (ns @ ''p'') [] (Some []) None []))
      else
        (case for_lines \<lparr>div_elem = d, buffer = [], list_mode = False, ul_elem = None\<rparr>
                (splitlines text) of
           Inl e \<Rightarrow> Inl e
         | Inr st \<Rightarrow>
             Inr (if buffer st \<noteq> [] then flush_paragraph (div_elem st) (buffer st)
                  else div_elem st)))"


section \<open>generate\_reqif.py: ReqIFGenerator\<close>

text \<open>
  The attributes that \<^verbatim>\<open>__init__\<close> sets to literals and that no method assigns again are
  constants of the model; the generator record holds the attributes that vary. The host
  clock is read once, in \<^verbatim>\<open>__init__\<close>: its formatted value is the argument \<^verbatim>\<open>now\<close>.
\<close>

definition dt_string :: string where "dt_string = ''DT-STRING''"
definition dt_xhtml :: string where "dt_xhtml = ''DT-XHTML''"
definition dt_integer :: string where "dt_integer = ''DT-INTEGER''"
definition dt_status :: string where "dt_status = ''DT-STATUS''"
definition dt_priority :: string where "dt_priority = ''DT-PRIORITY''"

definition status_values :: "(string \<times> string) list" where
  "status_values =
     [(''draft'', ''EV-STATUS-DRAFT''), (''wip'', ''EV-STATUS-WIP''),
      (''reviewed'', ''EV-STATUS-REVIEWED''), (''approved'', ''EV-STATUS-APPROVED'')]"

definition priority_values :: "(string \<times> string) list" where
  "priority_values =
     [(''high'', ''EV-PRIO-HIGH''), (''medium'', ''EV-PRIO-MEDIUM''), (''low'', ''EV-PRIO-LOW'')]"

text \<open>
  \<^verbatim>\<open>text_content\<close> is either an \<^verbatim>\<open>Element\<close> or a plain string. The dictionaries stored in
  \<^verbatim>\<open>spec_objects\<close> and \<^verbatim>\<open>spec_relations\<close> are records: field \<^verbatim>\<open>so_x\<close> is the entry
  \<^verbatim>\<open>req['x']\<close>, field \<^verbatim>\<open>rel_x\<close> the entry \<^verbatim>\<open>rel['x']\<close>.
\<close>

datatype text_content = Markup element | Plain string

record spec_object =
  so_identifier :: string
  so_type_ref :: string
  so_foreign_id :: int
  so_name :: string
  so_chapter :: string
  so_description :: string
  so_text_content :: text_content
  so_status :: string
  so_priority :: string
  so_req_prefix :: string
  so_attr_prefix :: string
  so_ie_puid :: string

record spec_relation =
  rel_identifier :: string
  rel_type_ref :: string
  rel_source :: string
  rel_target :: string

record ReqIFGenerator =
  title :: string
  timestamp :: string
  spec_objects :: "spec_object list"
  spec_relations :: "spec_relation list"

definition init :: "string \<Rightarrow> string \<Rightarrow> ReqIFGenerator" where
  "init title_arg now =
     \<lparr>title = title_arg, timestamp = now, spec_objects = [], spec_relations = []\<rparr>"

subsection \<open>add\_requirement and add\_relation\<close>

text \<open>
  A method returns its result, or the exception it raised, together with the generator
  after the call. For \<^verbatim>\<open>status\<close>, \<^verbatim>\<open>priority\<close> and \<^verbatim>\<open>req_prefix\<close> the value \<^verbatim>\<open>None\<close> of the
  model stands for an argument the caller left out, so that the default of the signature
  applies; for \<^verbatim>\<open>identifier\<close> and \<^verbatim>\<open>ie_puid\<close> it is Python's \<^verbatim>\<open>None\<close>, their default.
\<close>

definition req_type_map :: "(string \<times> string \<times> string \<times> string) list" where
  \<comment> \<open>The local \<^verbatim>\<open>type_map\<close> of \<^verbatim>\<open>add_requirement\<close>.\<close>
  "req_type_map =
     [(''functional'', (''T-REQ-FUNCTIONAL'', ''F'', ''F'')),
      (''interface'', (''T-REQ-INTERFACE'', ''I'', ''I'')),
      (''performance'', (''T-REQ-PERFORMANCE'', ''P'', ''P''))]"

definition add_requirement ::
  "ReqIFGenerator \<Rightarrow> string \<Rightarrow> int \<Rightarrow> string \<Rightarrow> string \<Rightarrow> string \<Rightarrow> text_content \<Rightarrow>
   string option \<Rightarrow> string option \<Rightarrow> string option \<Rightarrow> string option \<Rightarrow> string option \<Rightarrow>
   (error + string) \<times> ReqIFGenerator" where
  "add_requirement self req_type foreign_id name chapter description text_content
       status priority req_prefix identifier ie_puid =
     (let status = (case status of None \<Rightarrow> ''approved'' | Some s \<Rightarrow> s);
          priority = (case priority of None \<Rightarrow> ''high'' | Some p \<Rightarrow> p);
          req_prefix = (case req_prefix of None \<Rightarrow> ''SYS'' | Some r \<Rightarrow> r)
      in case map_of req_type_map req_type of
           None \<Rightarrow> (Inl (ValueError (''Invalid req_type: '' @ req_type)), self)
         | Some (type_ref, prefix_short, attr_prefix) \<Rightarrow>
             (let identifier =
                    (case identifier of
                       None \<Rightarrow>
                         ''SO-'' @ prefix_short @ ''-'' @
                           zfill (str_nat (length (spec_objects self) + 1)) 3
                     | Some i \<Rightarrow> i);
                  ie_puid =
                    (case ie_puid of
                       None \<Rightarrow> ''REQ-'' @ zfill (str_nat (length (spec_objects self) + 1)) 3
                     | Some p \<Rightarrow> p)
              in case dict_getitem status_values ''approved'' of
                   Inl e \<Rightarrow> (Inl e, self)
                 | Inr status_default \<Rightarrow>
                     (case dict_getitem priority_values ''medium'' of
                        Inl e \<Rightarrow> (Inl e, self)
                      | Inr priority_default \<Rightarrow>
                          (let req =
                             \<lparr>so_identifier = identifier,
                              so_type_ref = type_ref,
                              so_foreign_id = foreign_id,
                              so_name = name,
                              so_chapter = chapter,
                              so_description = description,
                              so_text_content = text_content,
                              so_status = dict_get status_values (lower status) status_default,
                              so_priority =
                                dict_get priority_values (lower priority) priority_default,
                              so_req_prefix = req_prefix,
                              so_attr_prefix = attr_prefix,
                              so_ie_puid = ie_puid\<rparr>
                           in (Inr identifier,
                               self\<lparr>spec_objects := spec_objects self @ [req]\<rparr>)))))"



subsection \<open>The encoder\<close>

text \<open>
  Each \<^verbatim>\<open>_create_*\<close> method appends to the element it is given; the model returns that
  element with the new children. \<^verbatim>\<open>node\<close> is a \<^verbatim>\<open>SubElement\<close> whose text is never set,
  \<^verbatim>\<open>leaf\<close> one whose \<^verbatim>\<open>.text\<close> is assigned right away. \<^verbatim>\<open>SubElement(parent, tag, attrib=d, **extra)\<close>
  stores the entries of \<^verbatim>\<open>d\<close> first and the keyword arguments after them.
\<close>

definition node :: "string \<Rightarrow> (string \<times> string) list \<Rightarrow> element list \<Rightarrow> element" where
  "node t a cs = Element t a None None cs"

definition leaf :: "string \<Rightarrow> (string \<times> string) list \<Rightarrow> string \<Rightarrow> element" where
  "leaf t a x = Element t a (Some x) None []"

definition extend_elem :: "element \<Rightarrow> element list \<Rightarrow> element" where
  "extend_elem parent cs = foldl SubElement parent cs"

definition create_header :: "ReqIFGenerator \<Rightarrow> element \<Rightarrow> element" where
  "create_header self root =
     SubElement root
       (node ''THE-HEADER'' []
          [node ''REQ-IF-HEADER'' [(''IDENTIFIER'', ''HDR-001'')]
             [leaf ''CREATION-TIME'' [] (timestamp self),
              leaf ''REQ-IF-TOOL-ID'' [] ''ReqIF_Generator'',
              leaf ''REQ-IF-VERSION'' [] ''1.0'',
              leaf ''SOURCE-TOOL-ID'' [] ''ReqIF_Generator'',
              leaf ''TITLE'' [] (title self)]])"

definition enum_val :: "string \<times> string \<times> string \<Rightarrow> element" where
  \<comment> \<open>The body of the two loops over \<^verbatim>\<open>status_defs\<close> and \<^verbatim>\<open>priority_defs\<close>.\<close>
  "enum_val d =
     (case d of (identifier, long_name, k) \<Rightarrow>
        node ''ENUM-VALUE'' [(''LONG-NAME'', long_name), (''IDENTIFIER'', identifier)]
          [node ''PROPERTIES'' []
             [node ''EMBEDDED-VALUE'' [(''OTHER-CONTENT'', long_name), (''KEY'', k)] []]])"

definition status_defs :: "(string \<times> string \<times> string) list" where
  "status_defs =
     [(''EV-STATUS-DRAFT'', ''Draft'', ''0''),
      (''EV-STATUS-WIP'', ''Work-in-progress'', ''1''),
      (''EV-STATUS-REVIEWED'', ''Reviewed'', ''2''),
      (''EV-STATUS-APPROVED'', ''Approved'', ''3'')]"

definition priority_defs :: "(string \<times> string \<times> string) list" where
  "priority_defs =
     [(''EV-PRIO-HIGH'', ''High'', ''0''),
      (''EV-PRIO-MEDIUM'', ''Medium'', ''1''),
      (''EV-PRIO-LOW'', ''Low'', ''2'')]"

definition create_datatypes :: "element \<Rightarrow> element" where
  "create_datatypes datatypes_elem =
     extend_elem datatypes_elem
       [node ''DATATYPE-DEFINITION-STRING''
          [(''LONG-NAME'', ''String''), (''IDENTIFIER'', dt_string)] [],
        node ''DATATYPE-DEFINITION-XHTML''
          [(''LONG-NAME'', ''XHTMLString''), (''IDENTIFIER'', dt_xhtml)] [],
        node ''DATATYPE-DEFINITION-INTEGER''
          [(''LONG-NAME'', ''Integer''), (''IDENTIFIER'', dt_integer)] [],
        node ''DATATYPE-DEFINITION-ENUMERATION''
          [(''LONG-NAME'', ''Status''), (''IDENTIFIER'', dt_status)]
          [node ''SPECIFIED-VALUES'' [] (map enum_val status_defs)],
        node ''DATATYPE-DEFINITION-ENUMERATION''
          [(''LONG-NAME'', ''Priority''), (''IDENTIFIER'', dt_priority)]
          [node ''SPECIFIED-VALUES'' [] (map enum_val priority_defs)]]"

definition attribute_definition ::
  "string \<Rightarrow> string \<Rightarrow> (string \<times> string) list \<Rightarrow> string \<Rightarrow> element" where
  \<comment> \<open>One \<^verbatim>\<open>ATTRIBUTE-DEFINITION-<kind>\<close> with its \<^verbatim>\<open>TYPE\<close> reference to a datatype.\<close>
  "attribute_definition kind identifier attrib_dict dt =
     node (''ATTRIBUTE-DEFINITION-'' @ kind) (attrib_dict @ [(''IDENTIFIER'', identifier)])
       [node ''TYPE'' [] [leaf (''DATATYPE-DEFINITION-'' @ kind @ ''-REF'') [] dt]]"

definition create_spec_object_type ::
  "element \<Rightarrow> string \<Rightarrow> string \<Rightarrow> string \<Rightarrow> element" where
  "create_spec_object_type spec_types_elem type_id long_name prefix =
     SubElement spec_types_elem
       (node ''SPEC-OBJECT-TYPE'' [(''LONG-NAME'', long_name), (''IDENTIFIER'', type_id)]
          [node ''SPEC-ATTRIBUTES'' []
             [attribute_definition ''INTEGER'' (prefix @ ''-AD-FOREIGNID'')
                [(''LONG-NAME'', ''ReqIF.ForeignID'')] dt_integer,
              attribute_definition ''STRING'' (prefix @ ''-AD-NAME'')
                [(''LONG-NAME'', ''ReqIF.Name'')] dt_string,
              attribute_definition ''STRING'' (prefix @ ''-AD-IEPUID'')
                [(''LONG-NAME'', ''IE PUID'')] dt_string,
              attribute_definition ''STRING'' (prefix @ ''-AD-CHAP'')
                [(''LONG-NAME'', ''ReqIF.ChapterName'')] dt_string,
              attribute_definition ''XHTML'' (prefix @ ''-AD-DESC'')
                [(''LONG-NAME'', ''ReqIF.Description'')] dt_xhtml,
              attribute_definition ''STRING'' (prefix @ ''-AD-PREFIX'')
                [(''LONG-NAME'', ''ReqIF.Prefix'')] dt_string,
              attribute_definition ''XHTML'' (prefix @ ''-AD-TEXT'')
                [(''LONG-NAME'', ''ReqIF.Text'')] dt_xhtml,
              attribute_definition ''ENUMERATION'' (prefix @ ''-AD-STATUS'')
                [(''LONG-NAME'', ''Status''), (''MULTI-VALUED'', ''false'')] dt_status,
              attribute_definition ''ENUMERATION'' (prefix @ ''-AD-PRIORITY'')
                [(''LONG-NAME'', ''Priority''), (''MULTI-VALUED'', ''false'')] dt_priority]])"

definition create_spec_types :: "element \<Rightarrow> element" where
  "create_spec_types spec_types_elem =
     (let e1 = SubElement spec_types_elem
                 (node ''SPECIFICATION-TYPE''
                    [(''LONG-NAME'', ''Stakeholder Requirements''), (''IDENTIFIER'', ''T-MODULE'')]
                    [node ''SPEC-ATTRIBUTES'' []
                       [attribute_definition ''STRING'' ''AD-MOD-ID''
                          [(''LONG-NAME'', ''ID'')] dt_string,
                        attribute_definition ''XHTML'' ''AD-MOD-DESC''
                          [(''LONG-NAME'', ''Description'')] dt_xhtml]]);
          e2 = create_spec_object_type e1 ''T-REQ-FUNCTIONAL'' ''functional'' ''F'';
          e3 = create_spec_object_type e2 ''T-REQ-INTERFACE'' ''interface'' ''I'';
          e4 = create_spec_object_type e3 ''T-REQ-PERFORMANCE'' ''performance'' ''P''
      in extend_elem e4
           [node ''SPEC-RELATION-TYPE'' [(''LONG-NAME'', ''satisfy''), (''IDENTIFIER'', ''T-REL-SATISFY'')] [],
            node ''SPEC-RELATION-TYPE'' [(''LONG-NAME'', ''derive''), (''IDENTIFIER'', ''T-REL-DERIVE'')] [],
            node ''SPEC-RELATION-TYPE'' [(''LONG-NAME'', ''refine''), (''IDENTIFIER'', ''T-REL-REFINE'')] []])"

text \<open>
  Every call of \<^verbatim>\<open>_create_xhtml_element\<close> passes a string and leaves \<^verbatim>\<open>is_formatted\<close> at its
  default \<^verbatim>\<open>False\<close>, so the branch that appends a given element is never taken.
\<close>

definition create_xhtml_element :: "string \<Rightarrow> element" where
  "create_xhtml_element content =
     node (ns @ ''div'') [] [leaf (ns @ ''p'') [] content]"

definition spec_obj :: "ReqIFGenerator \<Rightarrow> spec_object \<Rightarrow> element" where
  \<comment> \<open>The body of the loop of \<^verbatim>\<open>_create_spec_objects\<close>: the block of one requirement.\<close>
  "spec_obj self req =
     node ''SPEC-OBJECT'' [(''LAST-CHANGE'', timestamp self), (''IDENTIFIER'', so_identifier req)]
       [node ''TYPE'' [] [leaf ''SPEC-OBJECT-TYPE-REF'' [] (so_type_ref req)],
        node ''VALUES'' []
          [node ''ATTRIBUTE-VALUE-INTEGER'' [(''THE-VALUE'', str_int (so_foreign_id req))]
             [node ''DEFINITION'' []
                [leaf ''ATTRIBUTE-DEFINITION-INTEGER-REF'' []
                   (so_attr_prefix req @ ''-AD-FOREIGNID'')]],
           node ''ATTRIBUTE-VALUE-STRING'' [(''THE-VALUE'', so_name req)]
             [node ''DEFINITION'' []
                [leaf ''ATTRIBUTE-DEFINITION-STRING-REF'' [] (so_attr_prefix req @ ''-AD-NAME'')]],
           node ''ATTRIBUTE-VALUE-STRING'' [(''THE-VALUE'', so_chapter req)]
             [node ''DEFINITION'' []
                [leaf ''ATTRIBUTE-DEFINITION-STRING-REF'' [] (so_attr_prefix req @ ''-AD-CHAP'')]],
           node ''ATTRIBUTE-VALUE-STRING'' [(''THE-VALUE'', so_ie_puid req)]
             [node ''DEFINITION'' []
                [leaf ''ATTRIBUTE-DEFINITION-STRING-REF'' []
                   (so_attr_prefix req @ ''-AD-IEPUID'')]],
           node ''ATTRIBUTE-VALUE-XHTML'' []
             [node ''DEFINITION'' []
                [leaf ''ATTRIBUTE-DEFINITION-XHTML-REF'' [] (so_attr_prefix req @ ''-AD-DESC'')],
              node ''THE-VALUE'' [] [create_xhtml_element (so_description req)]],
           node ''ATTRIBUTE-VALUE-STRING'' [(''THE-VALUE'', so_req_prefix req)]
             [node ''DEFINITION'' []
                [leaf ''ATTRIBUTE-DEFINITION-STRING-REF'' []
                   (so_attr_prefix req @ ''-AD-PREFIX'')]],
           node ''ATTRIBUTE-VALUE-XHTML'' []
             [node ''DEFINITION'' []
                [leaf ''ATTRIBUTE-DEFINITION-XHTML-REF'' [] (so_attr_prefix req @ ''-AD-TEXT'')],
              node ''THE-VALUE'' []
                [case so_text_content req of
                   Markup e \<Rightarrow> e
                 | Plain content \<Rightarrow> create_xhtml_element content]],
           node ''ATTRIBUTE-VALUE-ENUMERATION'' []
             [node ''DEFINITION'' []
                [leaf ''ATTRIBUTE-DEFINITION-ENUMERATION-REF'' []
                   (so_attr_prefix req @ ''-AD-STATUS'')],
              node ''VALUES'' [] [leaf ''ENUM-VALUE-REF'' [] (so_status req)]],
           node ''ATTRIBUTE-VALUE-ENUMERATION'' []
             [node ''DEFINITION'' []
                [leaf ''ATTRIBUTE-DEFINITION-ENUMERATION-REF'' []
                   (so_attr_prefix req @ ''-AD-PRIORITY'')],
              node ''VALUES'' [] [leaf ''ENUM-VALUE-REF'' [] (so_priority req)]]]]"

definition create_spec_objects :: "ReqIFGenerator \<Rightarrow> element \<Rightarrow> element" where
  "create_spec_objects self spec_objects_elem =
     extend_elem spec_objects_elem (map (spec_obj self) (spec_objects self))"

definition spec_rel :: "ReqIFGenerator \<Rightarrow> spec_relation \<Rightarrow> element" where
  \<comment> \<open>The body of the loop of \<^verbatim>\<open>_create_spec_relations\<close>: the block of one relation.\<close>
  "spec_rel self rel =
     node ''SPEC-RELATION'' [(''LAST-CHANGE'', timestamp self), (''IDENTIFIER'', rel_identifier rel)]
       [node ''TYPE'' [] [leaf ''SPEC-RELATION-TYPE-REF'' [] (rel_type_ref rel)],
        node ''SOURCE'' [] [leaf ''SPEC-OBJECT-REF'' [] (rel_source rel)],
        node ''TARGET'' [] [leaf ''SPEC-OBJECT-REF'' [] (rel_target rel)]]"

definition create_spec_relations :: "ReqIFGenerator \<Rightarrow> element \<Rightarrow> element" where
  "create_spec_relations self spec_relations_elem =
     extend_elem spec_relations_elem (map (spec_rel self) (spec_relations self))"

definition spec_hier :: "ReqIFGenerator \<Rightarrow> nat \<times> spec_object \<Rightarrow> element" where
  \<comment> \<open>The body of the loop over \<^verbatim>\<open>enumerate(self.spec_objects, 1)\<close>.\<close>
  "spec_hier self p =
     (case p of (idx, req) \<Rightarrow>
        node ''SPEC-HIERARCHY''
          [(''LAST-CHANGE'', timestamp self), (''IDENTIFIER'', ''SH-'' @ zfill (str_nat idx) 3)]
          [node ''OBJECT'' [] [leaf ''SPEC-OBJECT-REF'' [] (so_identifier req)]])"

definition create_specifications :: "ReqIFGenerator \<Rightarrow> element \<Rightarrow> element" where
  "create_specifications self specifications_elem =
     SubElement specifications_elem
       (node ''SPECIFICATION''
          [(''LONG-NAME'', title self), (''LAST-CHANGE'', timestamp self),
           (''IDENTIFIER'', ''SP-001'')]
          [node ''TYPE'' [] [leaf ''SPECIFICATION-TYPE-REF'' [] ''T-MODULE''],
           node ''VALUES'' []
             [node ''ATTRIBUTE-VALUE-STRING'' [(''THE-VALUE'', ''SRS-001'')]
                [node ''DEFINITION'' [] [leaf ''ATTRIBUTE-DEFINITION-STRING-REF'' [] ''AD-MOD-ID'']],
              node ''ATTRIBUTE-VALUE-XHTML'' []
                [node ''DEFINITION'' []
                   [leaf ''ATTRIBUTE-DEFINITION-XHTML-REF'' [] ''AD-MOD-DESC''],
                 node ''THE-VALUE'' []
                   [create_xhtml_element
                      (''This module contains system-level requirements for '' @ title self
                         @ ''.'')]]],
           node ''CHILDREN'' [] (map (spec_hier self) (List.enumerate 1 (spec_objects self)))])"

text \<open>
  \<^verbatim>\<open>generate\<close> first builds the tree under \<^verbatim>\<open>root\<close>: that part of the method is
  \<^verbatim>\<open>generate_root\<close>. The value of \<^verbatim>\<open>xmlns\<close> is the class constant \<^verbatim>\<open>NAMESPACES['default']\<close>.
\<close>

definition generate_root :: "ReqIFGenerator \<Rightarrow> element" where
  "generate_root self =
     (let root = Element ''REQ-IF''
                   [(''xmlns'', ''http://www.omg.org/spec/ReqIF/20110401/reqif.xsd'')] None None [];
          root = create_header self root;
          datatypes = create_datatypes (node ''DATATYPES'' [] []);
          spec_types = create_spec_types (node ''SPEC-TYPES'' [] []);
          spec_objects_elem = create_spec_objects self (node ''SPEC-OBJECTS'' [] []);
          spec_relations_elem = create_spec_relations self (node ''SPEC-RELATIONS'' [] []);
          specifications = create_specifications self (node ''SPECIFICATIONS'' [] []);
          root = SubElement root
                   (node ''CORE-CONTENT'' []
                      [node ''REQ-IF-CONTENT'' []
                         [datatypes, spec_types, spec_objects_elem, spec_relations_elem,
                          specifications]])
      in SubElement root (node ''TOOL-EXTENSIONS'' [] []))"

subsection \<open>Writing the file\<close>

text \<open>
  \<^verbatim>\<open>generate\<close> then passes the tree through the XML library,
  \<^verbatim>\<open>minidom.parseString(tostring(root, encoding='utf-8')).toprettyxml(...)\<close>, and writes the
  bytes. \<^verbatim>\<open>tostring\<close> writes every string of the tree as it is, escaping only the markup
  characters (and, in attribute values, TAB, LF and CR as character references); the
  parser then
  \<^item> raises \<^verbatim>\<open>ExpatError\<close> on a character that XML 1.0 does not allow (a control character
    other than TAB, LF and CR), and nothing is written;
  \<^item> reads CR LF and a single CR in character data as LF;
  \<^item> gives an element whose text is empty no text node.
  The model returns the document that \<^verbatim>\<open>parseString\<close> yields, as an element tree without the
  namespace declarations; \<^verbatim>\<open>toprettyxml\<close> prints it, the text of an element that holds
  nothing but text on one line with the markup characters escaped.

  The model covers the trees whose tags and attribute names are plain names (a letter or
  underscore, then letters, digits, \<^verbatim>\<open>-\<close>, \<^verbatim>\<open>_\<close>, \<^verbatim>\<open>.\<close>), a tag possibly in the XHTML
  namespace, with no attribute name twice: on any other tree the result is \<^term>\<open>None\<close>, and nothing is
  said of the library. Every name the two modules create is plain; an element that a caller
  passes as \<^verbatim>\<open>text_content\<close> may have others.
\<close>

definition xml_char :: "char \<Rightarrow> bool" where
  \<comment> \<open>The characters of XML 1.0 among the code points 0 to 255.\<close>
  "xml_char c = ((of_char c :: nat) \<in> {9, 10, 13} \<or> 32 \<le> (of_char c :: nat))"

definition xml_string :: "string \<Rightarrow> bool" where
  "xml_string s = list_all xml_char s"

definition name_start :: "char \<Rightarrow> bool" where
  "name_start c =
     (let n = (of_char c :: nat) in (65 \<le> n \<and> n \<le> 90) \<or> (97 \<le> n \<and> n \<le> 122) \<or> n = 95)"

definition name_char :: "char \<Rightarrow> bool" where
  "name_char c =
     (let n = (of_char c :: nat) in name_start c \<or> (48 \<le> n \<and> n \<le> 57) \<or> n = 45 \<or> n = 46)"

definition plain_name :: "string \<Rightarrow> bool" where
  "plain_name s = (case s of [] \<Rightarrow> False | c # r \<Rightarrow> name_start c \<and> list_all name_char r)"

definition plain_tag :: "string \<Rightarrow> bool" where
  "plain_tag t = (plain_name t \<or> (startswith t ns \<and> plain_name (drop (length ns) t)))"

fun plain_names :: "element \<Rightarrow> bool" where
  "plain_names (Element t a x y cs) =
     (plain_tag t \<and> list_all plain_name (map fst a) \<and> distinct (map fst a) \<and>
      list_all plain_names cs)"



definition normalize_eol :: "string \<Rightarrow> string" where
  "normalize_eol s = replace [CHR 0x0D] ''\<newline>'' (replace [CHR 0x0D, CHR ''\<newline>''] ''\<newline>'' s)"

definition text_node :: "string option \<Rightarrow> string option" where
  "text_node x =
     (case x of None \<Rightarrow> None | Some s \<Rightarrow> if s = [] then None else Some (normalize_eol s))"

fun parsed :: "element \<Rightarrow> element" where
  "parsed (Element t a x y cs) = Element t a (text_node x) (text_node y) (map parsed cs)"



section \<open>Vocabulary of the properties\<close>

subsection \<open>Reading an element tree\<close>

fun findall :: "string list \<Rightarrow> element \<Rightarrow> element list" where
  \<comment> \<open>The elements reached from \<^verbatim>\<open>e\<close> along a path of child tags, in document order.\<close>
  "findall [] e = [e]"
| "findall (t # ts) e = concat (map (findall ts) (filter (\<lambda>c. tag c = t) (children e)))"

definition spec_object_blocks :: "element \<Rightarrow> element list" where
  "spec_object_blocks root =
     findall [''CORE-CONTENT'', ''REQ-IF-CONTENT'', ''SPEC-OBJECTS'', ''SPEC-OBJECT''] root"

definition spec_relation_blocks :: "element \<Rightarrow> element list" where
  "spec_relation_blocks root =
     findall [''CORE-CONTENT'', ''REQ-IF-CONTENT'', ''SPEC-RELATIONS'', ''SPEC-RELATION''] root"





definition value_definition_refs :: "element \<Rightarrow> string option list" where
  \<comment> \<open>For an object block: the attribute definition each of its values refers to, in order.\<close>
  "value_definition_refs blk =
     [elem_text r. vs \<leftarrow> findall [''VALUES''] blk, av \<leftarrow> children vs,
                   d \<leftarrow> findall [''DEFINITION''] av, r \<leftarrow> children d]"

definition attribute_definition_ids :: "element \<Rightarrow> string option list" where
  \<comment> \<open>For an object type of the catalog: the identifiers of its attribute definitions, in order.\<close>
  "attribute_definition_ids ty =
     [map_of (attrib ad) ''IDENTIFIER''. sa \<leftarrow> findall [''SPEC-ATTRIBUTES''] ty, ad \<leftarrow> children sa]"

definition catalog_object_types :: "element list" where
  "catalog_object_types = findall [''SPEC-OBJECT-TYPE''] (create_spec_types (node ''SPEC-TYPES'' [] []))"

definition blank_last_change :: "(string \<times> string) list \<Rightarrow> (string \<times> string) list" where
  "blank_last_change a = map (\<lambda>(k, v). if k = ''LAST-CHANGE'' then (k, []) else (k, v)) a"

fun scrub_clock :: "element \<Rightarrow> element" where
  \<comment> \<open>The tree with the text of \<^verbatim>\<open>CREATION-TIME\<close> and the \<^verbatim>\<open>LAST-CHANGE\<close> attribute of the object,
      relation, specification and hierarchy blocks blanked; everything else is kept.\<close>
  "scrub_clock (Element t a x y cs) =
     Element t
       (if t \<in> set [''SPEC-OBJECT'', ''SPEC-RELATION'', ''SPECIFICATION'', ''SPEC-HIERARCHY'']
        then blank_last_change a else a)
       (if t = ''CREATION-TIME'' then Some [] else x) y (map scrub_clock cs)"

definition last_change :: "element \<Rightarrow> string option" where
  "last_change e = map_of (attrib e) ''LAST-CHANGE''"

definition catalog_object_type :: "string \<Rightarrow> element list" where
  \<comment> \<open>The object type the catalog declares under an identifier.\<close>
  "catalog_object_type type_id =
     filter (\<lambda>ty. map_of (attrib ty) ''IDENTIFIER'' = Some type_id) catalog_object_types"

subsection \<open>Bullet lists and marked lines\<close>

definition is_ul :: "element \<Rightarrow> bool" where
  "is_ul e = (tag e = ns @ ''ul'')"

definition bullet_lists :: "element \<Rightarrow> element list" where
  \<comment> \<open>The list nodes of a fragment, in order.\<close>
  "bullet_lists d = filter is_ul (children d)"

definition list_items :: "element \<Rightarrow> string option list" where
  "list_items u = map elem_text (children u)"

definition marked_raw :: "string \<Rightarrow> bool" where
  \<comment> \<open>The line itself starts with the marker.\<close>
  "marked_raw raw = startswith raw ''- ''"

definition marked :: "string \<Rightarrow> bool" where
  \<comment> \<open>The line without its trailing whitespace starts with the marker.\<close>
  "marked raw = startswith (rstrip raw) ''- ''"

definition bare_marker :: "string \<Rightarrow> bool" where
  \<comment> \<open>The line starts with the marker, but no longer does once its trailing whitespace is
      removed: it is the dash followed by whitespace only.\<close>
  "bare_marker raw = (marked_raw raw \<and> \<not> marked raw)"

definition item_text :: "string \<Rightarrow> string option" where
  "item_text raw = Some (strip (drop 2 (rstrip raw)))"

function groups :: "('a \<Rightarrow> bool) \<Rightarrow> 'a list \<Rightarrow> 'a list list" where
  \<comment> \<open>The maximal runs of consecutive elements that satisfy \<^verbatim>\<open>P\<close>, in order.\<close>
  "groups P [] = []"
| "groups P (x # xs) =
     (if P x then (x # takeWhile P xs) # groups P (dropWhile P xs) else groups P xs)"
  by pat_completeness auto
termination
  by (relation "measure (\<lambda>(P, xs). length xs)")
     (auto simp: less_Suc_eq_le length_dropWhile_le)

definition uls :: "build_state \<Rightarrow> string option list list" where
  "uls st = map list_items (bullet_lists (div_elem st))"

definition list_open :: "build_state \<Rightarrow> bool" where
  \<comment> \<open>In list mode the buffer is empty and \<^verbatim>\<open>ul_elem\<close> is the last child of \<^verbatim>\<open>div\<close>, a list.\<close>
  "list_open st =
     (if list_mode st
      then buffer st = [] \<and>
           (\<exists>cs u. children (div_elem st) = cs @ [u] \<and> is_ul u \<and> ul_elem st = Some (length cs))
      else True)"

subsection \<open>Letter case\<close>

definition upper_ascii :: "char \<Rightarrow> char" where
  "upper_ascii c = char_of ((of_char c :: nat) - 32)"

definition is_lower_ascii :: "char \<Rightarrow> bool" where
  "is_lower_ascii c = (97 \<le> (of_char c :: nat) \<and> (of_char c :: nat) \<le> 122)"

definition any_casing_of :: "string \<Rightarrow> string \<Rightarrow> bool" where
  \<comment> \<open>\<^verbatim>\<open>s\<close> is the lower-case word \<^verbatim>\<open>w\<close> with any of its letters written as capitals.\<close>
  "any_casing_of s w = list_all2 (\<lambda>c k. c = k \<or> c = upper_ascii k) s w"

definition recognized :: "(string \<times> string) list \<Rightarrow> string \<Rightarrow> bool" where
  \<comment> \<open>\<^verbatim>\<open>s\<close> is one of the names of the enumeration, in any letter case.\<close>
  "recognized values_dict s = list_ex (any_casing_of s) (map fst values_dict)"

subsection \<open>Sequences of calls\<close>

text \<open>
  The arguments of one call of \<^verbatim>\<open>add_requirement\<close> that passes no \<^verbatim>\<open>identifier\<close>, and a
  caller that makes such calls one after the other, collecting the identifiers returned.
  A call that raises returns none and, as the exception leaves the generator as it was,
  the caller goes on with the next call.
\<close>

record requirement_call =
  call_req_type :: string
  call_foreign_id :: int
  call_name :: string
  call_chapter :: string
  call_description :: string
  call_text_content :: text_content
  call_status :: "string option"
  call_priority :: "string option"
  call_req_prefix :: "string option"
  call_ie_puid :: "string option"

definition call_add_requirement ::
  "ReqIFGenerator \<Rightarrow> requirement_call \<Rightarrow> (error + string) \<times> ReqIFGenerator" where
  "call_add_requirement self c =
     add_requirement self (call_req_type c) (call_foreign_id c) (call_name c) (call_chapter c)
       (call_description c) (call_text_content c) (call_status c) (call_priority c)
       (call_req_prefix c) None (call_ie_puid c)"

fun add_requirements :: "ReqIFGenerator \<Rightarrow> requirement_call list \<Rightarrow> string list \<times> ReqIFGenerator" where
  "add_requirements self [] = ([], self)"
| "add_requirements self (c # cs) =
     (case call_add_requirement self c of
        (Inl e, self') \<Rightarrow> add_requirements self' cs
      | (Inr i, self') \<Rightarrow>
          (case add_requirements self' cs of (ids, self'') \<Rightarrow> (i # ids, self'')))"

definition valid_kind :: "requirement_call \<Rightarrow> bool" where
  \<comment> \<open>The kind of the call is a key of \<^verbatim>\<open>type_map\<close>.\<close>
  "valid_kind c = (call_req_type c \<in> set (map fst req_type_map))"

definition short_code :: "string \<Rightarrow> string" where
  \<comment> \<open>The \<^verbatim>\<open>prefix_short\<close> that \<^verbatim>\<open>type_map\<close> gives a kind: F, I or P.\<close>
  "short_code req_type =
     (case map_of req_type_map req_type of
        Some (type_ref, prefix_short, attr_prefix) \<Rightarrow> prefix_short
      | None \<Rightarrow> [])"

definition auto_identifier :: "nat \<times> requirement_call \<Rightarrow> string" where
  \<comment> \<open>The identifier for the \<^verbatim>\<open>n\<close>-th registered object, made by the call \<^verbatim>\<open>c\<close>.\<close>
  "auto_identifier p =
     (case p of (n, c) \<Rightarrow> ''SO-'' @ short_code (call_req_type c) @ ''-'' @ zfill (str_nat n) 3)"

definition parse_nat :: "string \<Rightarrow> nat" where
  \<comment> \<open>The number a string of decimal digits denotes.\<close>
  "parse_nat s = foldl (\<lambda>a c. 10 * a + ((of_char c :: nat) - 48)) 0 s"

definition sequence_number :: "string \<Rightarrow> nat" where
  \<comment> \<open>The number after the five characters \<^verbatim>\<open>SO-<k>-\<close> of an identifier.\<close>
  "sequence_number i = parse_nat (drop 5 i)"

subsection \<open>Concrete inputs\<close>

definition example_generator :: ReqIFGenerator where
  \<comment> \<open>A generator with one functional requirement, registered with an automatic identifier.\<close>
  "example_generator =
     snd (add_requirement (init ''System Requirements Specification'' ''2024-01-01T00:00:00Z'')
            ''functional'' 1001 ''User Authentication'' ''Chapter 1.1'' ''Access control.''
            (Plain ''The system shall authenticate users.'')
            (Some ''approved'') (Some ''high'') (Some ''SYS-F'') None None)"

definition example_call :: "string \<Rightarrow> requirement_call" where
  "example_call req_type =
     \<lparr>call_req_type = req_type, call_foreign_id = 1, call_name = ''N'', call_chapter = ''C'',
      call_description = ''D'', call_text_content = Plain ''T'', call_status = None,
      call_priority = None, call_req_prefix = None, call_ie_puid = None\<rparr>"

section \<open>Properties of build\_xhtml\_from\_text\<close>

text \<open>
  C8. The empty string is converted to a fragment with exactly one paragraph node, whose
  text is the empty string.
\<close>

theorem C8_empty_input_one_empty_paragraph:
  "build_xhtml_from_text [] =
     Inr (Element (ns @ ''div'') [] None None [Element (ns @ ''p'') [] (Some []) None []])"
  by (simp add: build_xhtml_from_text_def SubElement_def)

subsection \<open>Lines of a text\<close>

lemma set_replace: "set (replace old new s) \<subseteq> set s \<union> set new"
proof (induction old new s rule: replace.induct)
  case (1 old new s)
  show ?case
  proof (cases "s = [] \<or> old = []")
    case True
    then show ?thesis by (subst replace.simps) auto
  next
    case False
    show ?thesis
    proof (cases "startswith s old")
      case True
      have "set (drop (length old) s) \<subseteq> set s"
        by (rule set_drop_subset)
      with 1(1) [OF False True] False True show ?thesis
        by (subst replace.simps) auto
    next
      case no_match: False
      from False obtain c r where "s = c # r"
        by (cases s) auto
      with 1(2) [OF False no_match] False no_match show ?thesis
        by (subst replace.simps) auto
    qed
  qed
qed

lemma set_split: "l \<in> set (split sep s) \<Longrightarrow> set l \<subseteq> set s"
proof (induction sep s arbitrary: l rule: split.induct)
  case (1 sep s)
  show ?case
  proof (cases "dropWhile (\<lambda>c. c \<noteq> sep) s")
    case Nil
    with 1(2) have "l = takeWhile (\<lambda>c. c \<noteq> sep) s"
      by (subst (asm) split.simps) simp
    then show ?thesis
      by (auto dest: set_takeWhileD)
  next
    case (Cons x r)
    have sub: "set r \<subseteq> set s"
      using set_dropWhileD [of _ "\<lambda>c. c \<noteq> sep" s] Cons by auto
    from 1(2) Cons have "l = takeWhile (\<lambda>c. c \<noteq> sep) s \<or> l \<in> set (split sep r)"
      by (subst (asm) split.simps) simp
    then show ?thesis
    proof
      assume "l = takeWhile (\<lambda>c. c \<noteq> sep) s"
      then show ?thesis by (auto dest: set_takeWhileD)
    next
      assume "l \<in> set (split sep r)"
      from 1(1) [OF Cons this] sub show ?thesis by auto
    qed
  qed
qed

lemma splitlines_Nil: "splitlines [] = [[]]"
  by (simp add: splitlines_def replace.simps split.simps)

lemma set_splitlines:
  assumes "l \<in> set (splitlines text)" and "c \<in> set l"
  shows "c \<in> set text \<or> c = CHR ''\<newline>''"
proof -
  let ?a = "replace [CHR 0x0D, CHR ''\<newline>''] ''\<newline>'' text"
  let ?b = "replace [CHR 0x0D] ''\<newline>'' ?a"
  from assms have "c \<in> set ?b"
    using set_split [of l "CHR ''\<newline>''" ?b] by (auto simp: splitlines_def)
  then have "c \<in> set ?a \<or> c = CHR ''\<newline>''"
    using set_replace [of "[CHR 0x0D]" "''\<newline>''" ?a] by auto
  then show ?thesis
    using set_replace [of "[CHR 0x0D, CHR ''\<newline>'']" "''\<newline>''" "text"] by auto
qed

lemma rstrip_all_space: "\<forall>c\<in>set s. isspace c \<Longrightarrow> rstrip s = []"
  by (simp add: rstrip_def)

subsection \<open>Whitespace only\<close>

lemma for_lines_blank:
  "\<forall>l\<in>set ls. rstrip l = [] \<Longrightarrow> \<not> list_mode st \<Longrightarrow> buffer st = [] \<Longrightarrow> for_lines st ls = Inr st"
  by (induction ls) (auto simp: loop_body_def)

text \<open>
  C10. A non-empty text made of whitespace characters and line breaks only is converted
  to a fragment with no block node at all, neither a paragraph nor a list (the empty
  string, C8, gives one empty paragraph).
\<close>

theorem C10_whitespace_only_no_blocks:
  assumes "text \<noteq> []" and "\<forall>c\<in>set text. isspace c"
  shows "build_xhtml_from_text text = Inr (Element (ns @ ''div'') [] None None [])"
proof -
  have "isspace CHR ''\<newline>''"
    by (simp add: isspace_def)
  with assms(2) have "\<forall>l\<in>set (splitlines text). \<forall>c\<in>set l. isspace c"
    using set_splitlines [of _ "text"] by blast
  then have "\<forall>l\<in>set (splitlines text). rstrip l = []"
    by (simp add: rstrip_all_space)
  then have "for_lines \<lparr>div_elem = Element (ns @ ''div'') [] None None [], buffer = [],
      list_mode = False, ul_elem = None\<rparr> (splitlines text) =
      Inr \<lparr>div_elem = Element (ns @ ''div'') [] None None [], buffer = [],
      list_mode = False, ul_elem = None\<rparr>"
    by (rule for_lines_blank) simp_all
  with assms(1) show ?thesis
    by (simp add: build_xhtml_from_text_def)
qed

theorem C10_whitespace_only_witness:
  "build_xhtml_from_text [CHR '' '', CHR 0x09, CHR 0x0D, CHR ''\<newline>'', CHR '' ''] =
     Inr (Element (ns @ ''div'') [] None None [])"
  using C10_whitespace_only_no_blocks [of "[CHR '' '', CHR 0x09, CHR 0x0D, CHR ''\<newline>'', CHR '' '']"]
  by (simp add: isspace_def)

subsection \<open>Lists\<close>

lemma bullet_lists_flush: "bullet_lists (flush_paragraph d buf) = bullet_lists d"
  by (simp add: flush_paragraph_def bullet_lists_def SubElement_def is_ul_def Let_def)

lemma marked_nonempty: "marked raw \<Longrightarrow> rstrip raw \<noteq> []"
  by (auto simp: marked_def startswith_def)

lemma body_unmarked:
  assumes "list_open st" "\<not> marked raw"
  shows "\<exists>st1. loop_body st raw = Inr st1 \<and> \<not> list_mode st1 \<and> list_open st1 \<and> uls st1 = uls st"
  using assms
  by (auto simp: loop_body_def Let_def marked_def list_open_def uls_def bullet_lists_flush)

lemma body_marked_open:
  assumes "list_open st" "marked raw" "list_mode st"
  shows "\<exists>st1. loop_body st raw = Inr st1 \<and> list_mode st1 \<and> list_open st1 \<and>
           uls st1 = butlast (uls st) @ [last (uls st) @ [item_text raw]]"
proof -
  from assms obtain cs u where cs: "children (div_elem st) = cs @ [u]" "is_ul u"
      "ul_elem st = Some (length cs)"
    by (auto simp: list_open_def)
  have ne: "rstrip raw \<noteq> []"
    using assms(2) by (rule marked_nonempty)
  show ?thesis
    using assms cs ne
    by (simp add: loop_body_def Let_def marked_def list_open_def uls_def bullet_lists_def
        SubElement_at_def SubElement_def is_ul_def list_items_def item_text_def)
qed

lemma body_marked_closed:
  assumes "list_open st" "marked raw" "\<not> list_mode st"
  shows "\<exists>st1. loop_body st raw = Inr st1 \<and> list_mode st1 \<and> list_open st1 \<and>
           uls st1 = uls st @ [[item_text raw]]"
proof -
  have ne: "rstrip raw \<noteq> []"
    using assms(2) by (rule marked_nonempty)
  show ?thesis
    using assms ne
    by (simp add: loop_body_def Let_def marked_def list_open_def uls_def bullet_lists_def
        SubElement_at_def SubElement_def is_ul_def list_items_def item_text_def
        flush_paragraph_def)
qed

text \<open>
  The loop over the lines never raises, and the list nodes it leaves are the runs of
  marked lines: a run that starts while a list is open goes into that list.
\<close>

lemma for_lines_groups:
  assumes "list_open st"
  shows "\<exists>st'. for_lines st ls = Inr st' \<and>
           uls st' =
             (if list_mode st
              then butlast (uls st) @ [last (uls st) @ map item_text (takeWhile marked ls)]
                     @ map (map item_text) (groups marked (dropWhile marked ls))
              else uls st @ map (map item_text) (groups marked ls))"
  using assms
proof (induction ls arbitrary: st)
  case Nil
  then show ?case
    by (auto simp: list_open_def uls_def bullet_lists_def)
next
  case (Cons raw ls)
  show ?case
  proof (cases "marked raw")
    case False
    from body_unmarked [OF Cons.prems False] obtain st1 where
      st1: "loop_body st raw = Inr st1" "\<not> list_mode st1" "list_open st1" "uls st1 = uls st"
      by blast
    from Cons.IH [OF st1(3)] obtain st' where
      st': "for_lines st1 ls = Inr st'" "uls st' = uls st1 @ map (map item_text) (groups marked ls)"
      using st1(2) by auto
    have ne: "list_mode st \<Longrightarrow> uls st \<noteq> []"
      using Cons.prems by (auto simp: list_open_def uls_def bullet_lists_def)
    show ?thesis
      using st1 st' False ne by auto
  next
    case True
    show ?thesis
    proof (cases "list_mode st")
      case lm: True
      from body_marked_open [OF Cons.prems True lm] obtain st1 where
        st1: "loop_body st raw = Inr st1" "list_mode st1" "list_open st1"
          "uls st1 = butlast (uls st) @ [last (uls st) @ [item_text raw]]"
        by blast
      from Cons.IH [OF st1(3)] obtain st' where
        st': "for_lines st1 ls = Inr st'"
          "uls st' = butlast (uls st1) @ [last (uls st1) @ map item_text (takeWhile marked ls)]
                     @ map (map item_text) (groups marked (dropWhile marked ls))"
        using st1(2) by auto
      show ?thesis
        using st1 st' True lm by (simp add: butlast_append)
    next
      case lm: False
      from body_marked_closed [OF Cons.prems True lm] obtain st1 where
        st1: "loop_body st raw = Inr st1" "list_mode st1" "list_open st1"
          "uls st1 = uls st @ [[item_text raw]]"
        by blast
      from Cons.IH [OF st1(3)] obtain st' where
        st': "for_lines st1 ls = Inr st'"
          "uls st' = butlast (uls st1) @ [last (uls st1) @ map item_text (takeWhile marked ls)]
                     @ map (map item_text) (groups marked (dropWhile marked ls))"
        using st1(2) by auto
      show ?thesis
        using st1 st' True lm by (simp add: butlast_append)
    qed
  qed
qed

lemma groups_Nil_iff: "groups P xs = [] \<longleftrightarrow> (\<forall>x\<in>set xs. \<not> P x)"
  by (induction P xs rule: groups.induct) auto

text \<open>What \<^const>\<open>groups\<close> says of one run, and of two runs with a line between them.\<close>

lemma groups_one_run: "xs \<noteq> [] \<Longrightarrow> \<forall>x\<in>set xs. P x \<Longrightarrow> groups P xs = [xs]"
  by (cases xs) (auto simp: takeWhile_eq_all_conv [THEN iffD2] dropWhile_eq_Nil_conv [THEN iffD2])

lemma groups_run_then:
  "\<forall>x\<in>set xs. P x \<Longrightarrow> xs \<noteq> [] \<Longrightarrow> \<not> P b \<Longrightarrow> groups P (xs @ b # ys) = xs # groups P ys"
  by (cases xs) (auto simp: takeWhile_append2 dropWhile_append2 takeWhile_tail dropWhile_append3)

text \<open>
  The conversion always returns a fragment, and its list nodes are, in order, the maximal
  runs of consecutive lines that start with the marker once their trailing whitespace is
  removed; the items of a node are the trimmed texts after the marker.
\<close>

lemma lists_are_runs_of_trimmed_marked_lines:
  "\<exists>d. build_xhtml_from_text text = Inr d \<and>
       (bullet_lists d \<noteq> [] \<longleftrightarrow> (\<exists>raw\<in>set (splitlines text). marked raw)) \<and>
       map list_items (bullet_lists d) = map (map item_text) (groups marked (splitlines text))"
proof (cases "text = []")
  case True
  have "\<not> marked []"
    by (simp add: marked_def rstrip_def startswith_def)
  then show ?thesis
    using True splitlines_Nil
    by (simp add: build_xhtml_from_text_def SubElement_def bullet_lists_def is_ul_def)
next
  case False
  define st0 where
    "st0 = \<lparr>div_elem = Element (ns @ ''div'') [] None None [], buffer = [], list_mode = False,
            ul_elem = None\<rparr>"
  have "list_open st0" and u0: "uls st0 = []" and lm0: "\<not> list_mode st0"
    by (simp_all add: st0_def list_open_def uls_def bullet_lists_def)
  from for_lines_groups [OF this(1), of "splitlines text"] obtain st' where
    st': "for_lines st0 (splitlines text) = Inr st'"
      "uls st' = map (map item_text) (groups marked (splitlines text))"
    using u0 lm0 by auto
  define d where
    "d = (if buffer st' \<noteq> [] then flush_paragraph (div_elem st') (buffer st') else div_elem st')"
  have b: "bullet_lists d = bullet_lists (div_elem st')"
    by (simp add: d_def bullet_lists_flush)
  have r: "build_xhtml_from_text text = Inr d"
    using False st'(1) by (simp add: build_xhtml_from_text_def st0_def d_def)
  have m: "map list_items (bullet_lists d) = map (map item_text) (groups marked (splitlines text))"
    using st'(2) b by (simp add: uls_def)
  have "bullet_lists d \<noteq> [] \<longleftrightarrow> groups marked (splitlines text) \<noteq> []"
    using arg_cong [OF m, of length] by auto
  then have "bullet_lists d \<noteq> [] \<longleftrightarrow> (\<exists>raw\<in>set (splitlines text). marked raw)"
    by (simp add: groups_Nil_iff)
  with r m show ?thesis
    by blast
qed

lemma rstrip_prefix: "\<exists>w. s = rstrip s @ w"
proof -
  have "rev (dropWhile isspace (rev s)) @ rev (takeWhile isspace (rev s)) =
      rev (takeWhile isspace (rev s) @ dropWhile isspace (rev s))"
    by (simp only: rev_append)
  also have "\<dots> = rev (rev s)"
    by (simp only: takeWhile_dropWhile_id)
  finally have "s = rstrip s @ rev (takeWhile isspace (rev s))"
    by (simp add: rstrip_def)
  then show ?thesis ..
qed

lemma startswith_iff: "startswith s p \<longleftrightarrow> (\<exists>r. s = p @ r)"
  by (auto simp: startswith_def) (metis append_take_drop_id)

lemma marked_imp_marked_raw: "marked raw \<Longrightarrow> marked_raw raw"
proof -
  assume "marked raw"
  then obtain r where "rstrip raw = ''- '' @ r"
    by (auto simp: marked_def startswith_iff)
  moreover obtain w where "raw = rstrip raw @ w"
    using rstrip_prefix by blast
  ultimately have "raw = ''- '' @ (r @ w)"
    by simp
  then show ?thesis
    unfolding marked_raw_def startswith_iff by (rule exI)
qed

lemma bare_marker_iff: "bare_marker raw \<longleftrightarrow> marked_raw raw \<and> rstrip raw = ''-''"
proof
  assume "marked_raw raw \<and> rstrip raw = ''-''"
  then show "bare_marker raw"
    by (simp add: bare_marker_def marked_def startswith_iff)
next
  assume b: "bare_marker raw"
  then obtain r where r: "raw = ''- '' @ r"
    by (auto simp: bare_marker_def marked_raw_def startswith_iff)
  from b have nm: "\<not> (\<exists>r'. rstrip raw = ''- '' @ r')"
    by (simp add: bare_marker_def marked_def startswith_iff)
  obtain w where w: "raw = rstrip raw @ w"
    using rstrip_prefix by blast
  have "\<not> isspace CHR ''-''"
    by (simp add: isspace_def)
  with r have "rstrip raw \<noteq> []"
    by (auto simp: rstrip_def dropWhile_eq_Nil_conv)
  then obtain c t where ct: "rstrip raw = c # t"
    by (cases "rstrip raw") auto
  with w r have c: "c = CHR ''-''"
    by (metis append_Cons list.inject)
  have "t = []"
  proof (cases t)
    case Nil
    then show ?thesis .
  next
    case (Cons c2 t2)
    with w r ct c have "c2 = CHR '' ''"
      by (metis append_Cons list.inject)
    with Cons ct c nm show ?thesis
      by simp
  qed
  with ct c b show "marked_raw raw \<and> rstrip raw = ''-''"
    by (simp add: bare_marker_def)
qed

lemma groups_cong: "\<forall>x\<in>set xs. P x = Q x \<Longrightarrow> groups P xs = groups Q xs"
proof (induction P xs rule: groups.induct)
  case (1 P)
  show ?case by simp
next
  case (2 P x xs)
  have t: "takeWhile P xs = takeWhile Q xs"
    using 2(3) by (intro takeWhile_cong) auto
  have d: "dropWhile P xs = dropWhile Q xs"
    using 2(3) by (intro dropWhile_cong) auto
  have s: "\<forall>y\<in>set (dropWhile P xs). P y = Q y"
    using 2(3) by (auto dest: set_dropWhileD)
  show ?case
  proof (cases "P x")
    case True
    with 2(1) [OF True s] 2(3) t d show ?thesis by simp
  next
    case False
    with 2(2) [OF False] 2(3) show ?thesis by simp
  qed
qed

text \<open>
  On a text without a bare marker line (a line that is the dash followed by whitespace
  only) a line is marked if and only if it starts with the marker as it stands, and the
  list nodes are the maximal runs of consecutive lines that start with the marker.
\<close>

lemma lists_are_runs_without_bare_marker:
  assumes "\<forall>raw\<in>set (splitlines text). \<not> bare_marker raw"
  shows "\<exists>d. build_xhtml_from_text text = Inr d \<and>
       (bullet_lists d \<noteq> [] \<longleftrightarrow> (\<exists>raw\<in>set (splitlines text). marked_raw raw)) \<and>
       map list_items (bullet_lists d) =
         map (map item_text) (groups marked_raw (splitlines text))"
proof -
  have e: "\<forall>raw\<in>set (splitlines text). marked raw = marked_raw raw"
    using assms marked_imp_marked_raw by (auto simp: bare_marker_def)
  then have "groups marked (splitlines text) = groups marked_raw (splitlines text)"
    by (rule groups_cong)
  with e show ?thesis
    using lists_are_runs_of_trimmed_marked_lines [of "text"] by auto
qed

text \<open>
  C4. The claim: a non-blank text gives a list node if and only if one of its lines starts
  with the marker \<^verbatim>\<open>"- "\<close>, consecutive marked lines make one list node, and a blank line
  between two groups of marked lines makes two. The docstrings say the same (lines starting
  with \<^verbatim>\<open>"- "\<close> become list items; consecutive such lines become a single list). The code
  strips the trailing whitespace of a line before it looks for the marker, which takes the
  marker's own space from a bare marker line: the text \<^verbatim>\<open>"- "\<close> is not blank and its only
  line starts with the marker, yet the fragment is one paragraph \<^verbatim>\<open>"-"\<close> with no list node;
  and the three consecutive marked lines of \<^verbatim>\<open>"- a\n- \n- b"\<close> give a list, a paragraph
  \<^verbatim>\<open>"-"\<close> and a second list. On every other text the claim holds
  (\<open>lists_are_runs_without_bare_marker\<close>).
\<close>

theorem C4_bare_marker_line_breaks_the_list:
  "build_xhtml_from_text ''- '' =
     Inr (Element (ns @ ''div'') [] None None [Element (ns @ ''p'') [] (Some ''-'') None []]) \<and>
   bullet_lists (Element (ns @ ''div'') [] None None [Element (ns @ ''p'') [] (Some ''-'') None []])
     = [] \<and>
   filter marked_raw (splitlines ''- '') = [''- ''] \<and>
   filter marked_raw (splitlines ''- a\<newline>- \<newline>- b'') = [''- a'', ''- '', ''- b''] \<and>
   build_xhtml_from_text ''- a\<newline>- \<newline>- b'' =
     Inr (Element (ns @ ''div'') [] None None
       [Element (ns @ ''ul'') [] None None [Element (ns @ ''li'') [] (Some ''a'') None []],
        Element (ns @ ''p'') [] (Some ''-'') None [],
        Element (ns @ ''ul'') [] None None [Element (ns @ ''li'') [] (Some ''b'') None []]])"
  by code_simp

section \<open>Properties of the generator\<close>

subsection \<open>The shape of the encoded tree\<close>

lemma children_extend [simp]: "children (extend_elem p cs) = children p @ cs"
  by (induction cs arbitrary: p) (simp_all add: extend_elem_def SubElement_def)

lemma tag_extend [simp]: "tag (extend_elem p cs) = tag p"
  by (induction cs arbitrary: p) (simp_all add: extend_elem_def SubElement_def)

lemma tag_SubElement [simp]: "tag (SubElement p c) = tag p"
  by (simp add: SubElement_def)

lemma children_SubElement [simp]: "children (SubElement p c) = children p @ [c]"
  by (simp add: SubElement_def)

lemma tag_node [simp]: "tag (node t a cs) = t"
  by (simp add: node_def)

lemma children_node [simp]: "children (node t a cs) = cs"
  by (simp add: node_def)

lemma tag_create [simp]:
  "tag (create_header self e) = tag e"
  "tag (create_datatypes e) = tag e"
  "tag (create_spec_object_type e type_id long_name prefix) = tag e"
  "tag (create_spec_types e) = tag e"
  "tag (create_spec_objects self e) = tag e"
  "tag (create_spec_relations self e) = tag e"
  "tag (create_specifications self e) = tag e"
  by (simp_all add: create_header_def create_datatypes_def create_spec_object_type_def
      create_spec_types_def create_spec_objects_def create_spec_relations_def
      create_specifications_def Let_def)

lemma concat_findall_Nil [simp]: "concat (map (findall [] \<circ> f) xs) = map f xs"
  by (induction xs) simp_all

lemma tag_spec_obj [simp]: "tag (spec_obj self req) = ''SPEC-OBJECT''"
  by (simp add: spec_obj_def node_def)

lemma tag_spec_rel [simp]: "tag (spec_rel self rel) = ''SPEC-RELATION''"
  by (simp add: spec_rel_def node_def)

lemma spec_object_blocks_generate:
  "spec_object_blocks (generate_root self) = map (spec_obj self) (spec_objects self)"
  by (simp add: spec_object_blocks_def generate_root_def create_header_def create_spec_objects_def
      Let_def)

lemma spec_relation_blocks_generate:
  "spec_relation_blocks (generate_root self) = map (spec_rel self) (spec_relations self)"
  by (simp add: spec_relation_blocks_def generate_root_def create_header_def create_spec_relations_def
      Let_def)

subsection \<open>Invalid kind\<close>

text \<open>
  C6. A call of \<^verbatim>\<open>add_requirement\<close> whose kind is not one of functional, interface and
  performance raises \<^verbatim>\<open>ValueError\<close> (the spec's InvalidKind), and the generator after the
  call is the generator before it: the same objects, the same relations.
\<close>

theorem C6_invalid_kind_raises_and_changes_nothing:
  assumes "req_type \<notin> {''functional'', ''interface'', ''performance''}"
  shows "add_requirement self req_type foreign_id name chapter description text_content
           status priority req_prefix identifier ie_puid =
         (Inl (ValueError (''Invalid req_type: '' @ req_type)), self)"
  using assms by (simp add: add_requirement_def req_type_map_def)

theorem C6_invalid_kind_witness:
  "add_requirement (init ''Spec'' ''2024-01-01T00:00:00Z'') ''security'' 7 ''N'' ''C'' ''D'' (Plain ''T'')
      None None None None None =
     (Inl (ValueError ''Invalid req_type: security''), init ''Spec'' ''2024-01-01T00:00:00Z'')"
  using C6_invalid_kind_raises_and_changes_nothing [of "''security''" "init ''Spec'' ''2024-01-01T00:00:00Z''" 7 "''N''" "''C''" "''D''" "Plain ''T''" None None None None None]
  by simp

subsection \<open>Order of the attribute values\<close>

lemma value_definition_refs_spec_obj:
  "value_definition_refs (spec_obj self req) =
     map (\<lambda>suffix. Some (so_attr_prefix req @ suffix))
       [''-AD-FOREIGNID'', ''-AD-NAME'', ''-AD-CHAP'', ''-AD-IEPUID'', ''-AD-DESC'', ''-AD-PREFIX'',
        ''-AD-TEXT'', ''-AD-STATUS'', ''-AD-PRIORITY'']"
  by (simp add: value_definition_refs_def spec_obj_def node_def leaf_def)

lemma catalog_order:
  "map attribute_definition_ids catalog_object_types =
     map (\<lambda>prefix. map (\<lambda>suffix. Some (prefix @ suffix))
       [''-AD-FOREIGNID'', ''-AD-NAME'', ''-AD-IEPUID'', ''-AD-CHAP'', ''-AD-DESC'', ''-AD-PREFIX'',
        ''-AD-TEXT'', ''-AD-STATUS'', ''-AD-PRIORITY'']) [''F'', ''I'', ''P'']"
  by (simp add: catalog_object_types_def create_spec_types_def create_spec_object_type_def
      attribute_definition_ids_def attribute_definition_def SubElement_def node_def leaf_def Let_def)

text \<open>
  C1, as the code has it. Every object block the encoder emits carries nine attribute
  values, always in the order ForeignID, Name, ChapterName, IE PUID, Description, Prefix,
  Text, Status, Priority. The catalog declares the same nine attributes for each of its
  three object types in the order ForeignID, Name, IE PUID, ChapterName, Description,
  Prefix, Text, Status, Priority: the two orders differ in the places of ChapterName and
  IE PUID.
\<close>

theorem C1_values_in_fixed_order:
  "map value_definition_refs (spec_object_blocks (generate_root self)) =
     map (\<lambda>req. map (\<lambda>suffix. Some (so_attr_prefix req @ suffix))
            [''-AD-FOREIGNID'', ''-AD-NAME'', ''-AD-CHAP'', ''-AD-IEPUID'', ''-AD-DESC'',
             ''-AD-PREFIX'', ''-AD-TEXT'', ''-AD-STATUS'', ''-AD-PRIORITY''])
       (spec_objects self) \<and>
   map attribute_definition_ids catalog_object_types =
     map (\<lambda>prefix. map (\<lambda>suffix. Some (prefix @ suffix))
            [''-AD-FOREIGNID'', ''-AD-NAME'', ''-AD-IEPUID'', ''-AD-CHAP'', ''-AD-DESC'',
             ''-AD-PREFIX'', ''-AD-TEXT'', ''-AD-STATUS'', ''-AD-PRIORITY''])
       [''F'', ''I'', ''P'']"
  by (simp add: spec_object_blocks_generate value_definition_refs_spec_obj catalog_order
      del: list.map)

lemma spec_objects_example:
  "map so_attr_prefix (spec_objects example_generator) = [''F'']"
  by code_simp

theorem C1_values_witness:
  "map value_definition_refs (spec_object_blocks (generate_root example_generator)) =
     [[Some ''F-AD-FOREIGNID'', Some ''F-AD-NAME'', Some ''F-AD-CHAP'', Some ''F-AD-IEPUID'',
       Some ''F-AD-DESC'', Some ''F-AD-PREFIX'', Some ''F-AD-TEXT'', Some ''F-AD-STATUS'',
       Some ''F-AD-PRIORITY'']]"
proof -
  obtain req where r: "spec_objects example_generator = [req]" "so_attr_prefix req = ''F''"
    using spec_objects_example by auto
  show ?thesis
    using C1_values_in_fixed_order [of example_generator] r by simp
qed

text \<open>
  The claim as worded fails on a generator with one functional requirement: its block
  has ChapterName before IE PUID, the functional type of the catalog IE PUID before
  ChapterName.
\<close>

theorem C1_catalog_order_counterexample:
  "map value_definition_refs (spec_object_blocks (generate_root example_generator)) \<noteq>
     map attribute_definition_ids (catalog_object_type ''T-REQ-FUNCTIONAL'') \<and>
   map attribute_definition_ids (catalog_object_type ''T-REQ-FUNCTIONAL'') =
     [[Some ''F-AD-FOREIGNID'', Some ''F-AD-NAME'', Some ''F-AD-IEPUID'', Some ''F-AD-CHAP'',
       Some ''F-AD-DESC'', Some ''F-AD-PREFIX'', Some ''F-AD-TEXT'', Some ''F-AD-STATUS'',
       Some ''F-AD-PRIORITY'']]"
  by code_simp

subsection \<open>Where the clock value goes\<close>

lemma scrub_SubElement: "scrub_clock (SubElement p c) = SubElement (scrub_clock p) (scrub_clock c)"
  by (cases p) (simp add: SubElement_def)

lemma scrub_extend:
  "scrub_clock (extend_elem p cs) = extend_elem (scrub_clock p) (map scrub_clock cs)"
  by (induction cs arbitrary: p) (simp_all add: extend_elem_def scrub_SubElement)

lemma scrub_spec_obj:
  "scrub_clock (spec_obj (self\<lparr>timestamp := now\<rparr>) req) = scrub_clock (spec_obj self req)"
  by (simp add: spec_obj_def node_def leaf_def blank_last_change_def)

lemma scrub_spec_rel:
  "scrub_clock (spec_rel (self\<lparr>timestamp := now\<rparr>) rel) = scrub_clock (spec_rel self rel)"
  by (simp add: spec_rel_def node_def leaf_def blank_last_change_def)

lemma scrub_spec_hier:
  "scrub_clock (spec_hier (self\<lparr>timestamp := now\<rparr>) p) = scrub_clock (spec_hier self p)"
  by (cases p) (simp add: spec_hier_def node_def leaf_def blank_last_change_def)

lemma scrub_comp:
  "scrub_clock \<circ> spec_obj (self\<lparr>timestamp := now\<rparr>) = scrub_clock \<circ> spec_obj self"
  "scrub_clock \<circ> spec_rel (self\<lparr>timestamp := now\<rparr>) = scrub_clock \<circ> spec_rel self"
  "scrub_clock \<circ> spec_hier (self\<lparr>timestamp := now\<rparr>) = scrub_clock \<circ> spec_hier self"
  by (simp_all add: fun_eq_iff scrub_spec_obj scrub_spec_rel scrub_spec_hier)

lemma scrub_create_header:
  "scrub_clock (create_header (self\<lparr>timestamp := now\<rparr>) root) =
     scrub_clock (create_header self root)"
  by (simp add: create_header_def scrub_SubElement node_def leaf_def)

lemma scrub_create_spec_objects:
  "scrub_clock (create_spec_objects (self\<lparr>timestamp := now\<rparr>) e) =
     scrub_clock (create_spec_objects self e)"
  by (simp add: create_spec_objects_def scrub_extend scrub_comp)

lemma scrub_create_spec_relations:
  "scrub_clock (create_spec_relations (self\<lparr>timestamp := now\<rparr>) e) =
     scrub_clock (create_spec_relations self e)"
  by (simp add: create_spec_relations_def scrub_extend scrub_comp)

lemma scrub_create_specifications:
  "scrub_clock (create_specifications (self\<lparr>timestamp := now\<rparr>) e) =
     scrub_clock (create_specifications self e)"
  by (simp add: create_specifications_def scrub_SubElement scrub_comp node_def leaf_def
      blank_last_change_def)

lemma scrub_generate:
  "scrub_clock (generate_root (self\<lparr>timestamp := now\<rparr>)) = scrub_clock (generate_root self)"
  by (simp add: generate_root_def Let_def scrub_SubElement scrub_create_header
      scrub_create_spec_objects scrub_create_spec_relations scrub_create_specifications node_def)

lemma creation_time:
  "map elem_text (findall [''THE-HEADER'', ''REQ-IF-HEADER'', ''CREATION-TIME''] (generate_root self)) =
     [Some (timestamp self)]"
  by (simp add: generate_root_def Let_def create_header_def leaf_def)

lemma last_change_spec_obj:
  "map last_change (spec_object_blocks (generate_root self)) =
     map (\<lambda>req. Some (timestamp self)) (spec_objects self)"
  by (simp add: spec_object_blocks_generate spec_obj_def node_def last_change_def)

lemma last_change_spec_rel:
  "map last_change (spec_relation_blocks (generate_root self)) =
     map (\<lambda>rel. Some (timestamp self)) (spec_relations self)"
  by (simp add: spec_relation_blocks_generate spec_rel_def node_def last_change_def)

lemma last_change_specification:
  "map last_change
     (findall [''CORE-CONTENT'', ''REQ-IF-CONTENT'', ''SPECIFICATIONS'', ''SPECIFICATION'']
        (generate_root self)) = [Some (timestamp self)]"
  by (simp add: generate_root_def Let_def create_header_def create_specifications_def node_def
      last_change_def)

lemma last_change_spec_hier:
  "map last_change
     (findall [''CORE-CONTENT'', ''REQ-IF-CONTENT'', ''SPECIFICATIONS'', ''SPECIFICATION'',
               ''CHILDREN'', ''SPEC-HIERARCHY''] (generate_root self)) =
     map (\<lambda>req. Some (timestamp self)) (spec_objects self)"
  by (simp add: generate_root_def Let_def create_header_def create_specifications_def node_def
      last_change_def spec_hier_def split_beta comp_def map_replicate_const)

text \<open>
  C2, as the code has it. The clock is read once, when the generator is made, and the
  encoder is a function of the generator: encoding the same generator again gives the
  same tree. The clock value is the text of \<^verbatim>\<open>CREATION-TIME\<close> in the header and also the
  \<^verbatim>\<open>LAST-CHANGE\<close> attribute of every object block, relation block, hierarchy entry and of
  the specification; two generators that differ in the clock value only are encoded to
  trees that differ in those places only.
\<close>

theorem C2_clock_in_creation_time_and_last_change:
  "scrub_clock (generate_root (self\<lparr>timestamp := now\<rparr>)) = scrub_clock (generate_root self) \<and>
   map elem_text (findall [''THE-HEADER'', ''REQ-IF-HEADER'', ''CREATION-TIME''] (generate_root self)) =
     [Some (timestamp self)] \<and>
   map last_change (spec_object_blocks (generate_root self)) =
     map (\<lambda>req. Some (timestamp self)) (spec_objects self) \<and>
   map last_change (spec_relation_blocks (generate_root self)) =
     map (\<lambda>rel. Some (timestamp self)) (spec_relations self) \<and>
   map last_change
       (findall [''CORE-CONTENT'', ''REQ-IF-CONTENT'', ''SPECIFICATIONS'', ''SPECIFICATION'']
          (generate_root self)) = [Some (timestamp self)] \<and>
   map last_change
       (findall [''CORE-CONTENT'', ''REQ-IF-CONTENT'', ''SPECIFICATIONS'', ''SPECIFICATION'',
                 ''CHILDREN'', ''SPEC-HIERARCHY''] (generate_root self)) =
     map (\<lambda>req. Some (timestamp self)) (spec_objects self)"
  by (intro conjI scrub_generate creation_time last_change_spec_obj last_change_spec_rel
      last_change_specification last_change_spec_hier)

theorem C2_clock_witness:
  "scrub_clock (generate_root (example_generator\<lparr>timestamp := ''2025-06-30T12:00:00Z''\<rparr>)) =
     scrub_clock (generate_root example_generator) \<and>
   map last_change (spec_object_blocks (generate_root example_generator)) =
     [Some ''2024-01-01T00:00:00Z'']"
proof -
  have "map (\<lambda>req. Some (timestamp example_generator)) (spec_objects example_generator) =
      [Some ''2024-01-01T00:00:00Z'']"
    by code_simp
  then show ?thesis
    using C2_clock_in_creation_time_and_last_change
      [where self = example_generator and now = "''2025-06-30T12:00:00Z''"]
    by simp
qed

text \<open>
  The claim as worded fails on a generator with one requirement: with another clock
  value the encoded trees differ below \<^verbatim>\<open>CORE-CONTENT\<close>, outside the header, where the
  object block carries the clock value as its \<^verbatim>\<open>LAST-CHANGE\<close>.
\<close>

theorem C2_clock_outside_header_counterexample:
  "findall [''CORE-CONTENT''] (generate_root (example_generator\<lparr>timestamp := ''2025-06-30T12:00:00Z''\<rparr>)) \<noteq>
     findall [''CORE-CONTENT''] (generate_root example_generator) \<and>
   map last_change (spec_object_blocks (generate_root example_generator)) =
     [Some ''2024-01-01T00:00:00Z''] \<and>
   map last_change
       (spec_object_blocks (generate_root (example_generator\<lparr>timestamp := ''2025-06-30T12:00:00Z''\<rparr>))) =
     [Some ''2025-06-30T12:00:00Z'']"
  by code_simp

subsection \<open>Status and priority\<close>

lemma lower_char_lower: "is_lower_ascii k \<Longrightarrow> lower_char k = k"
  by (simp add: is_lower_ascii_def lower_char_def Let_def)

lemma lower_char_upper: "is_lower_ascii k \<Longrightarrow> lower_char (upper_ascii k) = k"
  by (auto simp: is_lower_ascii_def lower_char_def upper_ascii_def Let_def)

lemma lower_char_eq:
  assumes "is_lower_ascii k" "lower_char c = k"
  shows "c = k \<or> c = upper_ascii k"
proof (cases "(65 \<le> (of_char c :: nat) \<and> (of_char c :: nat) \<le> 90) \<or>
    (192 \<le> (of_char c :: nat) \<and> (of_char c :: nat) \<le> 222 \<and> (of_char c :: nat) \<noteq> 215)")
  case False
  with assms(2) show ?thesis by (auto simp: lower_char_def Let_def)
next
  case True
  with assms(2) have k: "k = char_of ((of_char c :: nat) + 32)"
    by (auto simp: lower_char_def Let_def)
  have "(of_char k :: nat) = (of_char c + 32) mod 256"
    unfolding k by simp
  with True assms(1) have "(of_char c :: nat) = of_char k - 32"
    using nat_of_char_less_256 [of c] by (auto simp: is_lower_ascii_def)
  then have "c = upper_ascii k"
    unfolding upper_ascii_def by (metis char_of_char)
  then show ?thesis ..
qed

lemma lower_eq_iff:
  assumes "\<forall>k\<in>set w. is_lower_ascii k"
  shows "lower s = w \<longleftrightarrow> any_casing_of s w"
  using assms
proof (induction w arbitrary: s)
  case Nil
  then show ?case by (simp add: lower_def any_casing_of_def)
next
  case (Cons k w)
  show ?case
  proof (cases s)
    case Nil
    then show ?thesis by (simp add: lower_def any_casing_of_def)
  next
    case (Cons c r)
    have "lower r = w \<longleftrightarrow> any_casing_of r w"
      using Cons.IH Cons.prems by simp
    moreover have "lower_char c = k \<longleftrightarrow> c = k \<or> c = upper_ascii k"
      using Cons.prems lower_char_eq [of k c] lower_char_lower [of k] lower_char_upper [of k]
      by auto
    ultimately show ?thesis
      using Cons by (auto simp: lower_def any_casing_of_def)
  qed
qed

lemma keys_lower:
  "\<forall>k\<in>set ''draft''. is_lower_ascii k" "\<forall>k\<in>set ''wip''. is_lower_ascii k"
  "\<forall>k\<in>set ''reviewed''. is_lower_ascii k" "\<forall>k\<in>set ''approved''. is_lower_ascii k"
  "\<forall>k\<in>set ''high''. is_lower_ascii k" "\<forall>k\<in>set ''medium''. is_lower_ascii k"
  "\<forall>k\<in>set ''low''. is_lower_ascii k"
  by (simp_all add: is_lower_ascii_def)

lemma recognized_status:
  "recognized status_values s \<longleftrightarrow> lower s \<in> {''draft'', ''wip'', ''reviewed'', ''approved''}"
  by (auto simp: recognized_def status_values_def lower_eq_iff [OF keys_lower(1)]
      lower_eq_iff [OF keys_lower(2)] lower_eq_iff [OF keys_lower(3)] lower_eq_iff [OF keys_lower(4)])

lemma recognized_priority:
  "recognized priority_values s \<longleftrightarrow> lower s \<in> {''high'', ''medium'', ''low''}"
  by (auto simp: recognized_def priority_values_def lower_eq_iff [OF keys_lower(5)]
      lower_eq_iff [OF keys_lower(6)] lower_eq_iff [OF keys_lower(7)])

lemma add_requirement_valid:
  assumes "map_of req_type_map req_type = Some (type_ref, prefix_short, attr_prefix)"
  shows "add_requirement self req_type foreign_id name chapter description text_content
           status priority req_prefix identifier ie_puid =
         (Inr (case identifier of
                 None \<Rightarrow> ''SO-'' @ prefix_short @ ''-'' @
                           zfill (str_nat (length (spec_objects self) + 1)) 3
               | Some i \<Rightarrow> i),
          self\<lparr>spec_objects := spec_objects self @
            [\<lparr>so_identifier =
                (case identifier of
                   None \<Rightarrow> ''SO-'' @ prefix_short @ ''-'' @
                             zfill (str_nat (length (spec_objects self) + 1)) 3
                 | Some i \<Rightarrow> i),
              so_type_ref = type_ref,
              so_foreign_id = foreign_id,
              so_name = name,
              so_chapter = chapter,
              so_description = description,
              so_text_content = text_content,
              so_status =
                dict_get status_values
                  (lower (case status of None \<Rightarrow> ''approved'' | Some s \<Rightarrow> s))
                  ''EV-STATUS-APPROVED'',
              so_priority =
                dict_get priority_values
                  (lower (case priority of None \<Rightarrow> ''high'' | Some p \<Rightarrow> p))
                  ''EV-PRIO-MEDIUM'',
              so_req_prefix = (case req_prefix of None \<Rightarrow> ''SYS'' | Some r \<Rightarrow> r),
              so_attr_prefix = attr_prefix,
              so_ie_puid =
                (case ie_puid of
                   None \<Rightarrow> ''REQ-'' @ zfill (str_nat (length (spec_objects self) + 1)) 3
                 | Some p \<Rightarrow> p)\<rparr>]\<rparr>)"
proof -
  have "dict_getitem status_values ''approved'' = Inr ''EV-STATUS-APPROVED''"
    by (simp add: dict_getitem_def status_values_def)
  moreover have "dict_getitem priority_values ''medium'' = Inr ''EV-PRIO-MEDIUM''"
    by (simp add: dict_getitem_def priority_values_def)
  ultimately show ?thesis
    using assms by (simp add: add_requirement_def Let_def)
qed

lemma valid_kind_cases:
  assumes "req_type \<in> {''functional'', ''interface'', ''performance''}"
  obtains type_ref prefix_short attr_prefix where
    "map_of req_type_map req_type = Some (type_ref, prefix_short, attr_prefix)"
    "prefix_short \<in> {''F'', ''I'', ''P''}"
  using assms by (auto simp: req_type_map_def)

lemma status_get_unrecognized:
  assumes "\<not> recognized status_values s"
  shows "dict_get status_values (lower s) d = d"
proof -
  from assms have "lower s \<notin> {''draft'', ''wip'', ''reviewed'', ''approved''}"
    by (simp add: recognized_status)
  then show ?thesis
    by (auto simp: dict_get_def status_values_def)
qed

lemma priority_get_unrecognized:
  assumes "\<not> recognized priority_values s"
  shows "dict_get priority_values (lower s) d = d"
proof -
  from assms have "lower s \<notin> {''high'', ''medium'', ''low''}"
    by (simp add: recognized_priority)
  then show ?thesis
    by (auto simp: dict_get_def priority_values_def)
qed

lemma status_get_in:
  "dict_get status_values k ''EV-STATUS-APPROVED'' \<in> snd ` set status_values"
  by (simp add: dict_get_def status_values_def)

lemma priority_get_in:
  "dict_get priority_values k ''EV-PRIO-MEDIUM'' \<in> snd ` set priority_values"
  by (simp add: dict_get_def priority_values_def)

lemma lower_literals:
  "lower ''approved'' = ''approved''" "lower ''high'' = ''high''"
  by (simp_all add: lower_eq_iff keys_lower any_casing_of_def)

text \<open>
  C3, for a priority that is given. A call of \<^verbatim>\<open>add_requirement\<close> with a valid kind stores
  one object. Its status is approved when the status argument is left out or is not a name
  of the status enumeration (in any letter case); its priority is medium when the priority
  argument is given and is not a name of the priority enumeration. The stored status and
  priority are always identifiers of the two enumerations.
\<close>

theorem C3_status_and_priority_defaults:
  assumes "req_type \<in> {''functional'', ''interface'', ''performance''}"
  shows "\<exists>ident req.
           add_requirement self req_type foreign_id name chapter description text_content
             status priority req_prefix identifier ie_puid =
             (Inr ident, self\<lparr>spec_objects := spec_objects self @ [req]\<rparr>) \<and>
           (status = None \<or> (\<exists>s. status = Some s \<and> \<not> recognized status_values s)
              \<longrightarrow> so_status req = ''EV-STATUS-APPROVED'') \<and>
           ((\<exists>p. priority = Some p \<and> \<not> recognized priority_values p)
              \<longrightarrow> so_priority req = ''EV-PRIO-MEDIUM'') \<and>
           so_status req \<in> snd ` set status_values \<and>
           so_priority req \<in> snd ` set priority_values"
proof -
  from assms obtain type_ref prefix_short attr_prefix where
    m: "map_of req_type_map req_type = Some (type_ref, prefix_short, attr_prefix)"
    by (rule valid_kind_cases)
  have a: "dict_get status_values (lower ''approved'') ''EV-STATUS-APPROVED'' = ''EV-STATUS-APPROVED''"
    by (simp add: lower_literals dict_get_def status_values_def)
  show ?thesis
    unfolding add_requirement_valid [OF m]
    apply (intro exI conjI)
         apply (rule refl)
    using a status_get_in priority_get_in
    by (auto simp: status_get_unrecognized priority_get_unrecognized)
qed

theorem C3_defaults_witness:
  "\<exists>ident req.
     add_requirement (init ''Spec'' ''2024-01-01T00:00:00Z'') ''interface'' 7 ''N'' ''C'' ''D''
         (Plain ''T'') (Some ''obsolete'') (Some ''urgent'') None None None =
       (Inr ident, (init ''Spec'' ''2024-01-01T00:00:00Z'')\<lparr>spec_objects := [req]\<rparr>) \<and>
     so_status req = ''EV-STATUS-APPROVED'' \<and> so_priority req = ''EV-PRIO-MEDIUM''"
proof -
  have u: "\<not> recognized status_values ''obsolete''" "\<not> recognized priority_values ''urgent''"
    by code_simp+
  show ?thesis
    using C3_status_and_priority_defaults [of "''interface''" "init ''Spec'' ''2024-01-01T00:00:00Z''"
        7 "''N''" "''C''" "''D''" "Plain ''T''" "Some ''obsolete''" "Some ''urgent''" None None None] u
    by (auto simp: init_def)
qed

text \<open>
  The claim as worded fails on a call that leaves the priority out: the default of the
  signature is \<^verbatim>\<open>'high'\<close>, and the stored priority is high, not medium.
\<close>

theorem C3_priority_left_out_counterexample:
  "map so_priority
     (spec_objects
        (snd (add_requirement (init ''Spec'' ''2024-01-01T00:00:00Z'') ''functional'' 7 ''N'' ''C''
                ''D'' (Plain ''T'') None None None None None))) = [''EV-PRIO-HIGH'']"
  by code_simp

lemma get_key:
  "(k, v) \<in> set status_values \<Longrightarrow> dict_get status_values k d = v"
  "(k', v') \<in> set priority_values \<Longrightarrow> dict_get priority_values k' d = v'"
  by (auto simp: dict_get_def status_values_def priority_values_def)

lemma key_lower:
  "(k, v) \<in> set status_values \<Longrightarrow> \<forall>c\<in>set k. is_lower_ascii c"
  "(k', v') \<in> set priority_values \<Longrightarrow> \<forall>c\<in>set k'. is_lower_ascii c"
  using keys_lower by (auto simp: status_values_def priority_values_def)

text \<open>
  C9. In a call of \<^verbatim>\<open>add_requirement\<close> with a valid kind, a status that is one of draft,
  wip, reviewed, approved written in any letter case is stored as the identifier of that
  status, whatever the priority argument is; and a priority that is one of high, medium,
  low written in any letter case is stored as the identifier of that priority, whatever
  the status argument is. Neither falls back to the default.
\<close>

theorem C9_status_and_priority_any_case:
  assumes "req_type \<in> {''functional'', ''interface'', ''performance''}"
  shows "\<exists>ident req.
           add_requirement self req_type foreign_id name chapter description text_content
             status priority req_prefix identifier ie_puid =
             (Inr ident, self\<lparr>spec_objects := spec_objects self @ [req]\<rparr>) \<and>
           (\<forall>s sk sv. status = Some s \<and> (sk, sv) \<in> set status_values \<and> any_casing_of s sk
              \<longrightarrow> so_status req = sv) \<and>
           (\<forall>p pk pv. priority = Some p \<and> (pk, pv) \<in> set priority_values \<and> any_casing_of p pk
              \<longrightarrow> so_priority req = pv)"
proof -
  from assms obtain type_ref prefix_short attr_prefix where
    m: "map_of req_type_map req_type = Some (type_ref, prefix_short, attr_prefix)"
    by (rule valid_kind_cases)
  have s: "dict_get status_values (lower s) d = sv"
    if "(sk, sv) \<in> set status_values" "any_casing_of s sk" for s sk sv d
  proof -
    from that have "lower s = sk"
      using lower_eq_iff [OF key_lower(1)] by blast
    with that(1) show ?thesis
      by (simp add: get_key(1))
  qed
  have p: "dict_get priority_values (lower p) d = pv"
    if "(pk, pv) \<in> set priority_values" "any_casing_of p pk" for p pk pv d
  proof -
    from that have "lower p = pk"
      using lower_eq_iff [OF key_lower(2)] by blast
    with that(1) show ?thesis
      by (simp add: get_key(2))
  qed
  show ?thesis
    unfolding add_requirement_valid [OF m]
    apply (intro exI conjI)
      apply (rule refl)
    using s p by auto
qed

theorem C9_any_case_witness:
  "(\<exists>ident req.
      add_requirement (init ''Spec'' ''2024-01-01T00:00:00Z'') ''performance'' 7 ''N'' ''C'' ''D''
          (Plain ''T'') (Some ''DrAfT'') (Some ''urgent'') None None None =
        (Inr ident,
         (init ''Spec'' ''2024-01-01T00:00:00Z'')
           \<lparr>spec_objects := spec_objects (init ''Spec'' ''2024-01-01T00:00:00Z'') @ [req]\<rparr>) \<and>
      so_status req = ''EV-STATUS-DRAFT'') \<and>
   (\<exists>ident req.
      add_requirement (init ''Spec'' ''2024-01-01T00:00:00Z'') ''performance'' 7 ''N'' ''C'' ''D''
          (Plain ''T'') None (Some ''LOW'') None None None =
        (Inr ident,
         (init ''Spec'' ''2024-01-01T00:00:00Z'')
           \<lparr>spec_objects := spec_objects (init ''Spec'' ''2024-01-01T00:00:00Z'') @ [req]\<rparr>) \<and>
      so_priority req = ''EV-PRIO-LOW'')"
proof -
  define g where "g = init ''Spec'' ''2024-01-01T00:00:00Z''"
  have k: "''performance'' \<in> {''functional'', ''interface'', ''performance''}"
    by simp
  have s: "(''draft'', ''EV-STATUS-DRAFT'') \<in> set status_values"
    by (simp add: status_values_def)
  have p: "(''low'', ''EV-PRIO-LOW'') \<in> set priority_values"
    by (simp add: priority_values_def)
  have cs: "any_casing_of ''DrAfT'' ''draft''"
    by code_simp
  have cp: "any_casing_of ''LOW'' ''low''"
    by code_simp
  from C9_status_and_priority_any_case [OF k, of g 7 "''N''" "''C''" "''D''" "Plain ''T''" "Some ''DrAfT''"
      "Some ''urgent''" None None None]
  obtain ident req where
    a: "add_requirement g ''performance'' 7 ''N'' ''C'' ''D'' (Plain ''T'') (Some ''DrAfT'')
          (Some ''urgent'') None None None =
        (Inr ident, g\<lparr>spec_objects := spec_objects g @ [req]\<rparr>)"
    and b: "\<forall>s sk sv. Some ''DrAfT'' = Some s \<and> (sk, sv) \<in> set status_values \<and>
        any_casing_of s sk \<longrightarrow> so_status req = sv"
    by (elim exE conjE) (rule that)
  from b s cs have "so_status req = ''EV-STATUS-DRAFT''"
    by (elim allE [of _ "''DrAfT''"] allE [of _ "''draft''"] allE [of _ "''EV-STATUS-DRAFT''"]) simp
  with a have h1: "\<exists>ident req.
      add_requirement g ''performance'' 7 ''N'' ''C'' ''D'' (Plain ''T'') (Some ''DrAfT'')
          (Some ''urgent'') None None None =
        (Inr ident, g\<lparr>spec_objects := spec_objects g @ [req]\<rparr>) \<and>
      so_status req = ''EV-STATUS-DRAFT''"
    by (intro exI conjI)
  from C9_status_and_priority_any_case [OF k, of g 7 "''N''" "''C''" "''D''" "Plain ''T''" None "Some ''LOW''" None None None]
  obtain ident' req' where
    a': "add_requirement g ''performance'' 7 ''N'' ''C'' ''D'' (Plain ''T'') None
          (Some ''LOW'') None None None =
        (Inr ident', g\<lparr>spec_objects := spec_objects g @ [req']\<rparr>)"
    and b': "\<forall>p pk pv. Some ''LOW'' = Some p \<and> (pk, pv) \<in> set priority_values \<and>
        any_casing_of p pk \<longrightarrow> so_priority req' = pv"
    by (elim exE conjE) (rule that)
  from b' p cp have "so_priority req' = ''EV-PRIO-LOW''"
    by (elim allE [of _ "''LOW''"] allE [of _ "''low''"] allE [of _ "''EV-PRIO-LOW''"]) simp
  with a' have h2: "\<exists>ident req.
      add_requirement g ''performance'' 7 ''N'' ''C'' ''D'' (Plain ''T'') None
          (Some ''LOW'') None None None =
        (Inr ident, g\<lparr>spec_objects := spec_objects g @ [req]\<rparr>) \<and>
      so_priority req = ''EV-PRIO-LOW''"
    by (intro exI conjI)
  from h1 h2 show ?thesis
    unfolding g_def by (rule conjI)
qed

subsection \<open>Automatic identifiers\<close>

lemma parse_nat_snoc: "parse_nat (s @ [c]) = 10 * parse_nat s + ((of_char c :: nat) - 48)"
  by (simp add: parse_nat_def)

lemma parse_nat_str_nat: "parse_nat (str_nat n) = n"
proof (induction n rule: str_nat.induct)
  case (1 n)
  show ?case
  proof (cases "n < 10")
    case True
    then show ?thesis
      by (subst str_nat.simps) (simp add: parse_nat_def)
  next
    case False
    have "n mod 10 < 10" by simp
    then have "(48 + n mod 10) mod 256 = 48 + n mod 10"
      by simp
    with False 1 [OF False] show ?thesis
      by (subst str_nat.simps) (simp add: parse_nat_snoc)
  qed
qed

lemma parse_nat_zeros: "parse_nat (replicate k CHR ''0'' @ s) = parse_nat s"
  by (induction k) (simp_all add: parse_nat_def)

lemma str_nat_digits: "c \<in> set (str_nat n) \<Longrightarrow> 48 \<le> (of_char c :: nat) \<and> (of_char c :: nat) \<le> 57"
proof (induction n rule: str_nat.induct)
  case (1 n)
  show ?case
  proof (cases "n < 10")
    case True
    with 1(2) show ?thesis
      by (subst (asm) str_nat.simps) auto
  next
    case False
    have "n mod 10 < 10" by simp
    then have m: "(48 + n mod 10) mod 256 = 48 + n mod 10"
      by simp
    from 1(2) False have "c \<in> set (str_nat (n div 10)) \<or> c = char_of (48 + n mod 10)"
      by (subst (asm) str_nat.simps) auto
    with 1(1) [OF False] m show ?thesis
      by auto
  qed
qed

lemma str_nat_nonempty: "str_nat n \<noteq> []"
  by (subst str_nat.simps) simp

lemma zfill_str_nat: "zfill (str_nat n) w = replicate (w - length (str_nat n)) CHR ''0'' @ str_nat n"
proof (cases "str_nat n")
  case Nil
  then show ?thesis using str_nat_nonempty by simp
next
  case (Cons c r)
  then have "48 \<le> (of_char c :: nat)"
    using str_nat_digits [of c n] by simp
  then have "c \<noteq> CHR ''+'' \<and> c \<noteq> CHR ''-''"
    by auto
  with Cons show ?thesis
    by (auto simp: zfill_def)
qed

lemma parse_nat_zfill: "parse_nat (zfill (str_nat n) w) = n"
  by (simp add: zfill_str_nat parse_nat_zeros parse_nat_str_nat)

lemma sequence_number_auto:
  "valid_kind c \<Longrightarrow> sequence_number (auto_identifier (n, c)) = n"
  by (auto simp: valid_kind_def auto_identifier_def short_code_def req_type_map_def
      sequence_number_def parse_nat_zfill)

lemma call_invalid:
  "\<not> valid_kind c \<Longrightarrow> \<exists>e. call_add_requirement self c = (Inl e, self)"
  by (simp add: valid_kind_def call_add_requirement_def add_requirement_def req_type_map_def)

lemma call_valid:
  assumes "valid_kind c"
  shows "\<exists>self'. call_add_requirement self c =
            (Inr (auto_identifier (length (spec_objects self) + 1, c)), self') \<and>
          spec_objects self' = spec_objects self @ [last (spec_objects self')] \<and>
          so_identifier (last (spec_objects self')) =
            auto_identifier (length (spec_objects self) + 1, c)"
proof -
  from assms obtain type_ref prefix_short attr_prefix where
    m: "map_of req_type_map (call_req_type c) = Some (type_ref, prefix_short, attr_prefix)"
    by (auto simp: valid_kind_def req_type_map_def)
  show ?thesis
    unfolding call_add_requirement_def add_requirement_valid [OF m]
    by (simp add: auto_identifier_def short_code_def m)
qed

lemma add_requirements_ids:
  "fst (add_requirements self calls) =
     map auto_identifier (List.enumerate (length (spec_objects self) + 1) (filter valid_kind calls)) \<and>
   map so_identifier (spec_objects (snd (add_requirements self calls))) =
     map so_identifier (spec_objects self) @ fst (add_requirements self calls)"
proof (induction calls arbitrary: self)
  case Nil
  show ?case by simp
next
  case (Cons c calls)
  show ?case
  proof (cases "valid_kind c")
    case False
    from call_invalid [OF False] obtain e where "call_add_requirement self c = (Inl e, self)"
      by blast
    with Cons [of self] False show ?thesis
      by simp
  next
    case True
    from call_valid [OF True] obtain self' where
      s: "call_add_requirement self c =
            (Inr (auto_identifier (length (spec_objects self) + 1, c)), self')"
        "spec_objects self' = spec_objects self @ [last (spec_objects self')]"
        "so_identifier (last (spec_objects self')) =
            auto_identifier (length (spec_objects self) + 1, c)"
      by blast
    have l: "length (spec_objects self') = Suc (length (spec_objects self))"
      using arg_cong [OF s(2), of length] by simp
    have i: "map so_identifier (spec_objects self') =
        map so_identifier (spec_objects self) @ [auto_identifier (length (spec_objects self) + 1, c)]"
      using arg_cong [OF s(2), of "map so_identifier"] s(3) by simp
    show ?thesis
      using Cons [of self'] True s(1) l i
      by (simp add: split_beta enumerate_simps)
  qed
qed

lemma distinct_auto:
  assumes "\<forall>c\<in>set cs. valid_kind c"
  shows "distinct (map auto_identifier (List.enumerate n cs))"
proof -
  have "map (sequence_number \<circ> auto_identifier) (List.enumerate n cs) =
      map fst (List.enumerate n cs)"
  proof (rule map_cong [OF refl])
    fix p assume a: "p \<in> set (List.enumerate n cs)"
    obtain i c where p: "p = (i, c)"
      by (cases p)
    from a p have "(i, c) \<in> set (zip [n..<n + length cs] cs)"
      by (simp add: enumerate_eq_zip)
    then have "c \<in> set cs"
      by (rule set_zip_rightD)
    with assms have "valid_kind c" ..
    then show "(sequence_number \<circ> auto_identifier) p = fst p"
      using sequence_number_auto [of c i] p by simp
  qed
  then have "distinct (map sequence_number (map auto_identifier (List.enumerate n cs)))"
    by simp
  then show ?thesis
    by (rule distinct_map [THEN iffD1, THEN conjunct1])
qed

text \<open>
  C5. Start from a fresh generator and make any sequence of \<^verbatim>\<open>add_requirement\<close> calls that
  pass no identifier, of any mix of kinds (calls with an invalid kind raise and register
  nothing). The identifiers returned are pairwise distinct: the call that registers the
  n-th object returns \<^verbatim>\<open>SO-\<close>, the short code of its kind, a dash and n written with at
  least three digits, n counting the objects of all kinds. They are the identifiers of
  the stored objects.
\<close>

theorem C5_automatic_identifiers_distinct:
  "distinct (fst (add_requirements (init title_arg now) calls)) \<and>
   fst (add_requirements (init title_arg now) calls) =
     map auto_identifier (List.enumerate 1 (filter valid_kind calls)) \<and>
   map so_identifier (spec_objects (snd (add_requirements (init title_arg now) calls))) =
     fst (add_requirements (init title_arg now) calls)"
proof -
  have "spec_objects (init title_arg now) = []"
    by (simp add: init_def)
  then show ?thesis
    using add_requirements_ids [of "init title_arg now" calls]
      distinct_auto [of "filter valid_kind calls" 1]
    by simp
qed

theorem C5_automatic_identifiers_witness:
  "fst (add_requirements (init ''Spec'' ''2024-01-01T00:00:00Z'')
          [example_call ''functional'', example_call ''security'', example_call ''interface'',
           example_call ''functional'']) =
     [''SO-F-001'', ''SO-I-002'', ''SO-F-003''] \<and>
   distinct [''SO-F-001'', ''SO-I-002'', ''SO-F-003'']"
proof -
  have "map auto_identifier (List.enumerate 1 (filter valid_kind
          [example_call ''functional'', example_call ''security'', example_call ''interface'',
           example_call ''functional''])) = [''SO-F-001'', ''SO-I-002'', ''SO-F-003'']"
    by code_simp
  then show ?thesis
    using C5_automatic_identifiers_distinct [of "''Spec''" "''2024-01-01T00:00:00Z''"
        "[example_call ''functional'', example_call ''security'', example_call ''interface'',
          example_call ''functional'']"]
    by simp
qed

subsection \<open>Relations\<close>

lemma extend_elem_Element: "extend_elem (Element t a x y cs) cs' = Element t a x y (cs @ cs')"
  by (induction cs' arbitrary: cs) (simp_all add: extend_elem_def SubElement_def)

lemma unchanged_by_relations [simp]:
  "create_header (self\<lparr>spec_relations := rs\<rparr>) root = create_header self root"
  "create_spec_objects (self\<lparr>spec_relations := rs\<rparr>) e = create_spec_objects self e"
  "create_specifications (self\<lparr>spec_relations := rs\<rparr>) e = create_specifications self e"
  "spec_rel (self\<lparr>spec_relations := rs\<rparr>) = spec_rel self"
  by (simp_all add: create_header_def create_spec_objects_def create_specifications_def
      spec_rel_def spec_obj_def spec_hier_def fun_eq_iff cong: map_cong)

lemma generate_root_relations:
  "generate_root self =
     Element ''REQ-IF'' [(''xmlns'', ''http://www.omg.org/spec/ReqIF/20110401/reqif.xsd'')] None None
       ([node ''THE-HEADER'' []
           [node ''REQ-IF-HEADER'' [(''IDENTIFIER'', ''HDR-001'')]
              [leaf ''CREATION-TIME'' [] (timestamp self),
               leaf ''REQ-IF-TOOL-ID'' [] ''ReqIF_Generator'',
               leaf ''REQ-IF-VERSION'' [] ''1.0'',
               leaf ''SOURCE-TOOL-ID'' [] ''ReqIF_Generator'',
               leaf ''TITLE'' [] (title self)]]] @
        [Element ''CORE-CONTENT'' [] None None
           [Element ''REQ-IF-CONTENT'' [] None None
              [create_datatypes (node ''DATATYPES'' [] []),
               create_spec_types (node ''SPEC-TYPES'' [] []),
               create_spec_objects self (node ''SPEC-OBJECTS'' [] []),
               Element ''SPEC-RELATIONS'' [] None None (map (spec_rel self) (spec_relations self)),
               create_specifications self (node ''SPECIFICATIONS'' [] [])]],
         Element ''TOOL-EXTENSIONS'' [] None None []])"
  by (simp add: generate_root_def Let_def create_header_def create_spec_relations_def
      SubElement_def node_def extend_elem_Element)



lemma tag_parsed [simp]: "tag (parsed e) = tag e"
  by (cases e) simp






lemma plain_names_spec_rel: "plain_names (spec_rel self rel)"
  by (simp add: spec_rel_def node_def leaf_def plain_tag_def plain_name_def name_start_def
      name_char_def)








text \<open>Every name the encoder creates is plain, and a fresh generator is written.\<close>

lemmas name_defs = plain_tag_def plain_name_def name_start_def name_char_def

lemma plain_names_extend:
  "plain_names (extend_elem p cs) \<longleftrightarrow> plain_names p \<and> list_all plain_names cs"
  by (cases p) (auto simp: extend_elem_Element)

lemma plain_names_datatypes: "plain_names (create_datatypes (node ''DATATYPES'' [] []))"
  by (simp add: create_datatypes_def node_def extend_elem_Element enum_val_def status_defs_def
      priority_defs_def dt_string_def dt_xhtml_def dt_integer_def dt_status_def dt_priority_def
      name_defs)

lemma plain_names_attribute_definition:
  "kind \<in> {''INTEGER'', ''STRING'', ''XHTML'', ''ENUMERATION''} \<Longrightarrow>
   set (map fst d) \<subseteq> {''LONG-NAME'', ''MULTI-VALUED''} \<Longrightarrow> distinct (map fst d) \<Longrightarrow>
   plain_names (attribute_definition kind i d dt)"
  by (auto simp: attribute_definition_def node_def leaf_def name_defs list_all_iff)

lemma plain_names_spec_types: "plain_names (create_spec_types (node ''SPEC-TYPES'' [] []))"
  by (simp add: create_spec_types_def create_spec_object_type_def node_def SubElement_def
      extend_elem_Element Let_def plain_names_attribute_definition)
    (simp add: name_defs)





lemma xml_string_literals:
  "xml_string dt_string" "xml_string dt_xhtml" "xml_string dt_integer" "xml_string dt_status"
  "xml_string dt_priority"
  by (simp_all add: dt_string_def dt_xhtml_def dt_integer_def dt_status_def dt_priority_def
      xml_string_def xml_char_def)





text \<open>
  The result is \<^term>\<open>None\<close> only for a name in an element that a caller passed as
  \<^verbatim>\<open>text_content\<close>.
\<close>

lemma plain_names_spec_obj:
  "plain_names (spec_obj self req) \<longleftrightarrow>
     (case so_text_content req of Markup e \<Rightarrow> plain_names e | Plain content \<Rightarrow> True)"
  by (simp add: spec_obj_def create_xhtml_element_def node_def leaf_def name_defs ns_def
      startswith_def split: text_content.split)

lemma plain_names_spec_hier: "plain_names (spec_hier self p)"
  by (cases p) (simp add: spec_hier_def node_def leaf_def name_defs)

lemma plain_names_generate_root:
  "plain_names (generate_root self) \<longleftrightarrow>
     list_all (\<lambda>req. case so_text_content req of Markup e \<Rightarrow> plain_names e | Plain content \<Rightarrow> True)
       (spec_objects self)"
  using plain_names_datatypes plain_names_spec_types
  by (simp add: generate_root_relations create_spec_objects_def create_specifications_def
      create_xhtml_element_def node_def leaf_def SubElement_def extend_elem_Element
      plain_names_spec_obj plain_names_spec_hier plain_names_spec_rel list_all_iff)
    (simp add: name_defs ns_def startswith_def)







end
